theory Spec2Isabelle
  imports Main "HOL-Library.Word" "HOL-Library.Multiset" "HOL-Library.Char_ord"
    "HOL-Library.List_Lexorder"
begin

section \<open>Data model\<close>

text \<open>
  Go \<^verbatim>\<open>error\<close> values are modelled by their message. A value of Go's
  \<^verbatim>\<open>interface{}\<close> as the database driver and the type switches of
  \<^verbatim>\<open>saveTableToNumpy\<close> see it is a tagged value; 64-bit integers and the bit patterns
  of floating point numbers are machine words (\<^verbatim>\<open>int\<close> is taken at its 64-bit
  width), so \<^verbatim>\<open>0.0\<close> is the word \<open>0\<close>.
\<close>

type_synonym err = string

record gotime =
  unix_nanos :: int
  zone_offset :: int

datatype gvalue =
    GNil
  | GInt64 "64 word"
  | GInt "64 word"
  | GFloat64 "64 word"
  | GFloat32 "32 word"
  | GString string
  | GBool bool
  | GTime gotime
  | GBytes "8 word list"

text \<open>db.go, lines 11-35. A nil pointer or nil slice is \<open>None\<close>.\<close>

record FieldMetadata =
  FieldName :: string
  DataType :: string
  IsPrimaryKey :: bool
  IsForeignKey :: bool
  IsNullable :: bool
  ReferencedTable :: "string option"
  ReferencedField :: "string option"
  TransformedFeatures :: "string list option"

record TableMetadata =
  TableName :: string
  Fields :: "FieldMetadata list"

type_synonym TableRow = "string \<rightharpoonup> gvalue"

record TableData =
  DataTableName :: string
  Columns :: "FieldMetadata list"
  Rows :: "TableRow list"

text \<open>
  Reading a Go map at a key it does not hold gives the zero value, which for
  \<^verbatim>\<open>interface{}\<close> is nil: \<^verbatim>\<open>row[col.FieldName]\<close>.
\<close>

definition row_get :: "TableRow \<Rightarrow> string \<Rightarrow> gvalue" where
  "row_get row k = (case row k of None \<Rightarrow> GNil | Some v \<Rightarrow> v)"

text \<open>db.go, lines 39-44 (the same in the streaming revision, lines 181-183).\<close>

definition convertValue :: "gvalue \<Rightarrow> string \<Rightarrow> gvalue" where
  "convertValue rawValue dt = rawValue"

text \<open>db.go, lines 46-56.\<close>

definition DataTypeString :: string where "DataTypeString = ''string''"
definition DataTypeInt :: string where "DataTypeInt = ''int''"
definition DataTypeFloat :: string where "DataTypeFloat = ''float''"
definition DataTypeBool :: string where "DataTypeBool = ''bool''"
definition DataTypeTime :: string where "DataTypeTime = ''timestamp''"
definition DataTypeDate :: string where "DataTypeDate = ''date''"
definition DataTypeUUID :: string where "DataTypeUUID = ''uuid''"
definition DataTypeNull :: string where "DataTypeNull = ''null''"

lemmas DataType_defs =
  DataTypeString_def DataTypeInt_def DataTypeFloat_def DataTypeBool_def
  DataTypeTime_def DataTypeDate_def DataTypeUUID_def DataTypeNull_def

text \<open>The closed set of canonical types, and the keys of the lookup table.\<close>

definition canonical_types :: "string list" where
  "canonical_types =
     [DataTypeString, DataTypeInt, DataTypeFloat, DataTypeBool,
      DataTypeTime, DataTypeDate, DataTypeUUID, DataTypeNull]"

definition known_pg_types :: "string list" where
  "known_pg_types =
     [''character varying'', ''text'', ''varchar'',
      ''integer'', ''bigint'', ''smallint'',
      ''numeric'', ''decimal'', ''real'', ''double precision'',
      ''boolean'',
      ''timestamp without time zone'', ''timestamp with time zone'',
      ''time without time zone'', ''time with time zone'',
      ''date'', ''uuid'']"

text \<open>db.go, lines 59-80: a switch, the first matching case wins.\<close>

definition mapDataType :: "string \<Rightarrow> string" where
  "mapDataType pgType =
     (if pgType = ''character varying'' \<or> pgType = ''text'' \<or> pgType = ''varchar''
        then DataTypeString
      else if pgType = ''integer'' \<or> pgType = ''bigint'' \<or> pgType = ''smallint''
        then DataTypeInt
      else if pgType = ''numeric'' \<or> pgType = ''decimal'' \<or> pgType = ''real''
              \<or> pgType = ''double precision''
        then DataTypeFloat
      else if pgType = ''boolean''
        then DataTypeBool
      else if pgType = ''timestamp without time zone''
              \<or> pgType = ''timestamp with time zone''
              \<or> pgType = ''time without time zone''
              \<or> pgType = ''time with time zone''
        then DataTypeTime
      else if pgType = ''date''
        then DataTypeDate
      else if pgType = ''uuid''
        then DataTypeUUID
      else DataTypeString)"

section \<open>Schema discovery (db.go, lines 156-363)\<close>

text \<open>
  A slice of strings that a caller passes in is nil (\<open>None\<close>) or holds its elements;
  ranging over a nil slice visits nothing.
\<close>

definition elems :: "string list option \<Rightarrow> string list" where
  "elems s = (case s of None \<Rightarrow> [] | Some xs \<Rightarrow> xs)"

text \<open>
  \<^verbatim>\<open>SourceDetails\<close> is a Go map from names to either a string or a slice of strings; a
  nil map is \<open>None\<close>. A map is held as its entries, with distinct keys. The list says
  nothing about the order in which the entries are visited: Go leaves that to the
  runtime, which may choose another order at every iteration.
\<close>

datatype detail = DString string | DStrings "string list option"

record DatasetMetadata =
  DatasetName :: string
  SourceType :: string
  SourceDetails :: "(string \<times> detail) list option"

record SchemaDetails =
  Dataset :: DatasetMetadata
  Tables :: "TableMetadata list"

text \<open>
  The catalog is what the database answers to the four catalog queries. A query either
  fails or gives a result set. A result set is the rows that \<^verbatim>\<open>Next\<close> delivers, each
  of which scans or fails to scan, and the error with which the iteration ended
  (\<^verbatim>\<open>Err()\<close>), if any: a result set that breaks off holds the rows delivered before
  and that error.
\<close>

type_synonym 'a resultset = "(err + 'a) list \<times> err option"

record catalog =
  tables_query :: "err + string resultset"
  columns_query :: "string \<Rightarrow> err + (string \<times> string \<times> string) resultset"
  pk_query :: "string \<Rightarrow> err + string resultset"
  fk_query :: "string \<Rightarrow> err + (string \<times> string \<times> string) resultset"

text \<open>The zero value of \<^verbatim>\<open>var schema SchemaDetails\<close> (line 183).\<close>

definition zero_dataset :: DatasetMetadata where
  "zero_dataset = \<lparr>DatasetName = [], SourceType = [], SourceDetails = None\<rparr>"

definition zero_schema :: SchemaDetails where
  "zero_schema = \<lparr>Dataset = zero_dataset, Tables = []\<rparr>"

text \<open>Lines 231-247: the columns of one table, in the order of the result set.\<close>

fun scan_columns ::
  "(err + (string \<times> string \<times> string)) list \<Rightarrow> FieldMetadata list \<Rightarrow> err + FieldMetadata list"
where
  "scan_columns [] flds = Inr flds"
| "scan_columns (Inl e # rest) flds = Inl e"
| "scan_columns (Inr (colName, dataType, isNullableStr) # rest) flds =
     scan_columns rest
       (flds @
        [\<lparr>FieldName = colName, DataType = mapDataType dataType,
          IsPrimaryKey = False, IsForeignKey = False,
          IsNullable = (isNullableStr = ''YES''),
          ReferencedTable = None, ReferencedField = None,
          TransformedFeatures = None\<rparr>])"

text \<open>Lines 262-271.\<close>

fun scan_pks :: "(err + string) list \<Rightarrow> (string \<rightharpoonup> bool) \<Rightarrow> err + (string \<rightharpoonup> bool)" where
  "scan_pks [] pkMap = Inr pkMap"
| "scan_pks (Inl e # rest) pkMap = Inl e"
| "scan_pks (Inr pkColumn # rest) pkMap = scan_pks rest (pkMap(pkColumn \<mapsto> True))"

text \<open>Lines 274-278; a missing key of \<^verbatim>\<open>map[string]bool\<close> reads as false.\<close>

definition mark_pks :: "FieldMetadata list \<Rightarrow> (string \<rightharpoonup> bool) \<Rightarrow> FieldMetadata list" where
  "mark_pks flds pkMap =
     map (\<lambda>field.
            if (case pkMap (FieldName field) of None \<Rightarrow> False | Some b \<Rightarrow> b)
            then field\<lparr>IsPrimaryKey := True\<rparr> else field)
         flds"

text \<open>Lines 297-312.\<close>

fun scan_fks ::
  "(err + (string \<times> string \<times> string)) list \<Rightarrow> (string \<rightharpoonup> string \<times> string)
   \<Rightarrow> err + (string \<rightharpoonup> string \<times> string)"
where
  "scan_fks [] fkMap = Inr fkMap"
| "scan_fks (Inl e # rest) fkMap = Inl e"
| "scan_fks (Inr (colName, foreignTable, foreignColumn) # rest) fkMap =
     scan_fks rest (fkMap(colName \<mapsto> (foreignTable, foreignColumn)))"

text \<open>Lines 315-321.\<close>

definition mark_fks ::
  "FieldMetadata list \<Rightarrow> (string \<rightharpoonup> string \<times> string) \<Rightarrow> FieldMetadata list"
where
  "mark_fks flds fkMap =
     map (\<lambda>field.
            case fkMap (FieldName field) of
              None \<Rightarrow> field
            | Some (foreignTable, foreignColumn) \<Rightarrow>
                field\<lparr>IsForeignKey := True,
                      ReferencedTable := Some foreignTable,
                      ReferencedField := Some foreignColumn\<rparr>)
         flds"

text \<open>
  Lines 216-324: the body of the loop for a table that was asked for. The three result
  sets are read to their end and closed; their final error (the second component) is
  never asked for.
\<close>

definition table_body :: "catalog \<Rightarrow> string \<Rightarrow> err + TableMetadata" where
  "table_body db tableName =
     (case columns_query db tableName of
        Inl e \<Rightarrow> Inl (''querying columns for table '' @ tableName @ '': '' @ e)
      | Inr colRows \<Rightarrow>
     (case scan_columns (fst colRows) [] of
        Inl e \<Rightarrow> Inl (''scanning column for table '' @ tableName @ '': '' @ e)
      | Inr flds \<Rightarrow>
     (case pk_query db tableName of
        Inl e \<Rightarrow> Inl (''querying primary keys for table '' @ tableName @ '': '' @ e)
      | Inr pkRows \<Rightarrow>
     (case scan_pks (fst pkRows) Map.empty of
        Inl e \<Rightarrow> Inl (''scanning primary key for table '' @ tableName @ '': '' @ e)
      | Inr pkMap \<Rightarrow>
     (case fk_query db tableName of
        Inl e \<Rightarrow> Inl (''querying foreign keys for table '' @ tableName @ '': '' @ e)
      | Inr fkRows \<Rightarrow>
     (case scan_fks (fst fkRows) Map.empty of
        Inl e \<Rightarrow> Inl (''scanning foreign key for table '' @ tableName @ '': '' @ e)
      | Inr fkMap \<Rightarrow>
          Inr \<lparr>TableName = tableName,
               Fields = mark_fks (mark_pks flds pkMap) fkMap\<rparr>))))))"

text \<open>
  Lines 198-325: the loop over the table list. Every return on an error hands back the
  schema as it is at that moment, beside the error.
\<close>

fun tables_loop ::
  "catalog \<Rightarrow> string list \<Rightarrow> (err + string) list \<Rightarrow> SchemaDetails \<Rightarrow> SchemaDetails \<times> err option"
where
  "tables_loop db tableNames [] schema = (schema, None)"
| "tables_loop db tableNames (Inl e # rest) schema =
     (schema, Some (''scanning table name: '' @ e))"
| "tables_loop db tableNames (Inr tableName # rest) schema =
     (if tableName \<notin> set tableNames then tables_loop db tableNames rest schema
      else (case table_body db tableName of
              Inl e \<Rightarrow> (schema, Some e)
            | Inr tableMeta \<Rightarrow>
                tables_loop db tableNames rest
                  (schema\<lparr>Tables := Tables schema @ [tableMeta]\<rparr>)))"

text \<open>Lines 331-351: the closure pass over the foreign keys.\<close>

definition close_field :: "string list \<Rightarrow> FieldMetadata \<Rightarrow> FieldMetadata" where
  "close_field tableNames field =
     (case ReferencedTable field of
        None \<Rightarrow> field
      | Some referenced \<Rightarrow>
          if IsForeignKey field then
            (if referenced \<in> set tableNames then field
             else field\<lparr>ReferencedTable := None, IsForeignKey := False,
                        ReferencedField := None\<rparr>)
          else field)"

definition fk_closure :: "string list \<Rightarrow> TableMetadata list \<Rightarrow> TableMetadata list" where
  "fk_closure tableNames tables =
     map (\<lambda>table. table\<lparr>Fields := map (close_field tableNames) (Fields table)\<rparr>) tables"

text \<open>Lines 182-363.\<close>

definition fetchMetadata ::
  "catalog \<Rightarrow> string \<Rightarrow> string list option \<Rightarrow> SchemaDetails \<times> err option"
where
  "fetchMetadata db dbName tableNames =
     (case tables_query db of
        Inl e \<Rightarrow> (zero_schema, Some (''querying tables: '' @ e))
      | Inr (rows, rowsErr) \<Rightarrow>
          (case tables_loop db (elems tableNames) rows zero_schema of
             (schema, Some e) \<Rightarrow> (schema, Some e)
           | (schema, None) \<Rightarrow>
               (case rowsErr of
                  Some e \<Rightarrow> (schema, Some (''processing tables: '' @ e))
                | None \<Rightarrow>
                    (\<lparr>Dataset =
                        \<lparr>DatasetName = dbName,
                         SourceType = ''Relational Database'',
                         SourceDetails =
                           Some [(''database_type'', DString ''PostgreSQL''),
                                 (''tables_or_collections'', DStrings tableNames)]\<rparr>,
                      Tables = fk_closure (elems tableNames) (Tables schema)\<rparr>,
                     None))))"







text \<open>
  main.go, lines 15-25: the metadata is encoded by \<^verbatim>\<open>json.Marshal\<close> and handed
  to \<^verbatim>\<open>saveFile\<close> under the name \<^verbatim>\<open>metadata.json\<close>. The encoder prints the
  fields of a struct in their order of declaration under their tags, a nil pointer, nil
  slice or nil map as \<^verbatim>\<open>null\<close>. For a map it visits the entries in the order
  that the runtime chooses, the parameter \<open>iter\<close>, sorts them by key (strings compare
  byte by byte), and prints them in that order. How it quotes and escapes a string is the
  parameter \<open>q\<close>. A slice that the code grows with \<^verbatim>\<open>append\<close> from nil is nil
  exactly when it is empty.
\<close>

text \<open>An order of iteration visits every entry of the map once.\<close>

definition map_iteration :: "((string \<times> detail) list \<Rightarrow> (string \<times> detail) list) \<Rightarrow> bool" where
  "map_iteration iter = (\<forall>kvs. mset (iter kvs) = mset kvs)"

fun commas :: "string list \<Rightarrow> string" where
  "commas [] = []"
| "commas [x] = x"
| "commas (x # y # zs) = x @ '','' @ commas (y # zs)"

definition json_key :: "string \<Rightarrow> string" where
  "json_key k = [CHR 0x22] @ k @ [CHR 0x22] @ '':''"

definition json_bool :: "bool \<Rightarrow> string" where
  "json_bool b = (if b then ''true'' else ''false'')"

definition json_object :: "string list \<Rightarrow> string" where
  "json_object members = ''{'' @ commas members @ ''}''"

definition json_array :: "string list \<Rightarrow> string" where
  "json_array items = ''['' @ commas items @ '']''"

definition json_slice :: "string list \<Rightarrow> string" where
  "json_slice items = (if items = [] then ''null'' else json_array items)"

definition json_ptr :: "(string \<Rightarrow> string) \<Rightarrow> string option \<Rightarrow> string" where
  "json_ptr q p = (case p of None \<Rightarrow> ''null'' | Some s \<Rightarrow> q s)"

definition json_field :: "(string \<Rightarrow> string) \<Rightarrow> FieldMetadata \<Rightarrow> string" where
  "json_field q f =
     json_object
       [json_key ''field_name'' @ q (FieldName f),
        json_key ''data_type'' @ q (DataType f),
        json_key ''is_primary_key'' @ json_bool (IsPrimaryKey f),
        json_key ''is_foreign_key'' @ json_bool (IsForeignKey f),
        json_key ''nullable'' @ json_bool (IsNullable f),
        json_key ''referenced_table_or_collection'' @ json_ptr q (ReferencedTable f),
        json_key ''referenced_field'' @ json_ptr q (ReferencedField f),
        json_key ''transformed_features'' @
          (case TransformedFeatures f of
             None \<Rightarrow> ''null''
           | Some xs \<Rightarrow> json_array (map q xs))]"

definition json_table :: "(string \<Rightarrow> string) \<Rightarrow> TableMetadata \<Rightarrow> string" where
  "json_table q t =
     json_object
       [json_key ''table_or_collection_name'' @ q (TableName t),
        json_key ''fields'' @ json_slice (map (json_field q) (Fields t))]"

definition json_detail :: "(string \<Rightarrow> string) \<Rightarrow> detail \<Rightarrow> string" where
  "json_detail q d =
     (case d of
        DString s \<Rightarrow> q s
      | DStrings None \<Rightarrow> ''null''
      | DStrings (Some xs) \<Rightarrow> json_array (map q xs))"

definition json_map ::
  "(string \<Rightarrow> string) \<Rightarrow> ((string \<times> detail) list \<Rightarrow> (string \<times> detail) list)
   \<Rightarrow> (string \<times> detail) list \<Rightarrow> string"
where
  "json_map q iter kvs =
     json_object (map (\<lambda>(k, v). q k @ '':'' @ json_detail q v) (sort_key fst (iter kvs)))"

definition json_dataset ::
  "(string \<Rightarrow> string) \<Rightarrow> ((string \<times> detail) list \<Rightarrow> (string \<times> detail) list)
   \<Rightarrow> DatasetMetadata \<Rightarrow> string"
where
  "json_dataset q iter d =
     json_object
       [json_key ''dataset_name'' @ q (DatasetName d),
        json_key ''source_type'' @ q (SourceType d),
        json_key ''source_details'' @
          (case SourceDetails d of
             None \<Rightarrow> ''null''
           | Some kvs \<Rightarrow> json_map q iter kvs)]"

definition json_Marshal ::
  "(string \<Rightarrow> string) \<Rightarrow> ((string \<times> detail) list \<Rightarrow> (string \<times> detail) list)
   \<Rightarrow> SchemaDetails \<Rightarrow> string"
where
  "json_Marshal q iter s =
     json_object
       [json_key ''dataset_metadata'' @ json_dataset q iter (Dataset s),
        json_key ''tables'' @ json_slice (map (json_table q) (Tables s))]"

definition saveMetadata ::
  "(string \<Rightarrow> string) \<Rightarrow> ((string \<times> detail) list \<Rightarrow> (string \<times> detail) list)
   \<Rightarrow> SchemaDetails \<Rightarrow> string \<times> string"
where
  "saveMetadata q iter metadata = (''metadata.json'', json_Marshal q iter metadata)"

text \<open>
  Three catalogs. In the first, \<^verbatim>\<open>sessions.user_id\<close> refers to \<^verbatim>\<open>users.id\<close> and
  \<^verbatim>\<open>sessions.org_id\<close> to \<^verbatim>\<open>orgs.id\<close>. In the second, the column query of
  \<^verbatim>\<open>sessions\<close> fails, after \<^verbatim>\<open>users\<close> has been read. In the third, the result
  set of that query breaks off after its first row.
\<close>

definition catalog_sessions :: catalog where
  "catalog_sessions =
     \<lparr>tables_query = Inr ([Inr ''users'', Inr ''orgs'', Inr ''sessions''], None),
      columns_query = (\<lambda>t.
        if t = ''users'' then Inr ([Inr (''id'', ''integer'', ''NO'')], None)
        else if t = ''sessions'' then
          Inr ([Inr (''user_id'', ''integer'', ''NO''), Inr (''org_id'', ''integer'', ''YES'')],
               None)
        else Inr ([], None)),
      pk_query = (\<lambda>t. if t = ''users'' then Inr ([Inr ''id''], None) else Inr ([], None)),
      fk_query = (\<lambda>t.
        if t = ''sessions'' then
          Inr ([Inr (''user_id'', ''users'', ''id''), Inr (''org_id'', ''orgs'', ''id'')], None)
        else Inr ([], None))\<rparr>"

definition catalog_truncated :: catalog where
  "catalog_truncated =
     catalog_sessions\<lparr>columns_query := (\<lambda>t.
        if t = ''sessions'' then
          Inr ([Inr (''user_id'', ''integer'', ''NO'')], Some ''unexpected EOF'')
        else columns_query catalog_sessions t)\<rparr>"


definition plain_field :: "string \<Rightarrow> string \<Rightarrow> bool \<Rightarrow> FieldMetadata" where
  "plain_field n t nullable =
     \<lparr>FieldName = n, DataType = t, IsPrimaryKey = False, IsForeignKey = False,
      IsNullable = nullable, ReferencedTable = None, ReferencedField = None,
      TransformedFeatures = None\<rparr>"

text \<open>The flag of a field agrees with its two reference pointers.\<close>

definition fk_wf :: "FieldMetadata \<Rightarrow> bool" where
  "fk_wf f =
     (IsForeignKey f = (ReferencedTable f \<noteq> None)
      \<and> IsForeignKey f = (ReferencedField f \<noteq> None))"

text \<open>A catalog that differs from the first only in a query about a table not asked for.\<close>

definition catalog_sessions_alt :: catalog where
  "catalog_sessions_alt =
     catalog_sessions\<lparr>pk_query := (\<lambda>t.
        if t = ''orgs'' then Inl ''permission denied''
        else pk_query catalog_sessions t)\<rparr>"

definition quote_plain :: "string \<Rightarrow> string" where
  "quote_plain s = [CHR 0x22] @ s @ [CHR 0x22]"

section \<open>Reading the rows of a table\<close>

text \<open>
  The page query \<^verbatim>\<open>SELECT cols FROM table LIMIT n OFFSET k\<close> is kept in its four parts.
  The database answers a query with an error or with a result set: the outcome of
  \<^verbatim>\<open>rows.Columns()\<close> and, for every successful \<^verbatim>\<open>rows.Next()\<close>, the values of
  the row or the error of \<^verbatim>\<open>rows.Scan\<close>. Neither reader asks the result set for its
  final error, so a result set that ends early is a shorter list. The queries issued are
  logged in \<open>issued\<close>, which the code does not read.
\<close>

datatype pagequery =
  PageQuery (q_columns: string) (q_table: string) (q_limit: nat) (q_offset: nat)

datatype sqlrows =
  SqlRows (rows_columns: "err + string list") (rows_scans: "(err + gvalue list) list")

record database =
  answer :: "pagequery \<Rightarrow> err + sqlrows"
  issued :: "pagequery list"

definition db_Query :: "database \<Rightarrow> pagequery \<Rightarrow> (err + sqlrows) \<times> database" where
  "db_Query db q = (answer db q, db\<lparr>issued := issued db @ [q]\<rparr>)"

fun strings_Join :: "string list \<Rightarrow> string \<Rightarrow> string" where
  "strings_Join [] sep = []"
| "strings_Join [x] sep = x"
| "strings_Join (x # y # zs) sep = x @ sep @ strings_Join (y # zs) sep"

text \<open>
  \<^verbatim>\<open>rows.Scan\<close> is given one destination per column name and fails when the row has
  another number of values.
\<close>

definition rows_Scan :: "string list \<Rightarrow> err + gvalue list \<Rightarrow> err + gvalue list" where
  "rows_Scan cols r =
     (case r of
        Inl e \<Rightarrow> Inl e
      | Inr vals \<Rightarrow>
          if length vals \<noteq> length cols
          then Inl ''sql: wrong number of destination arguments in Scan''
          else Inr vals)"

text \<open>db.go, lines 112-115 (streaming revision, lines 37-42): a later field of the same name wins.\<close>

fun meta_map :: "FieldMetadata list \<Rightarrow> (string \<rightharpoonup> FieldMetadata) \<Rightarrow> (string \<rightharpoonup> FieldMetadata)" where
  "meta_map [] metaMap = metaMap"
| "meta_map (field # rest) metaMap = meta_map rest (metaMap(FieldName field \<mapsto> field))"

text \<open>db.go, lines 132-139 (streaming revision, lines 111-118).\<close>

fun build_row ::
  "(string \<rightharpoonup> FieldMetadata) \<Rightarrow> string list \<Rightarrow> gvalue list \<Rightarrow> TableRow \<Rightarrow> TableRow"
where
  "build_row metaMap (colName # cols) (v # vals) rowMap =
     build_row metaMap cols vals
       (case metaMap colName of
          Some meta \<Rightarrow> rowMap(colName \<mapsto> convertValue v (DataType meta))
        | None \<Rightarrow> rowMap(colName \<mapsto> v))"
| "build_row metaMap cols vals rowMap = rowMap"

subsection \<open>Reading a whole table into memory (db.go, lines 82-154)\<close>

definition BATCHSIZE_db :: nat where "BATCHSIZE_db = 10000"

text \<open>Lines 117-143: the rows of one batch are appended to \<^verbatim>\<open>tableData.Rows\<close>.\<close>

fun scan_rows ::
  "(string \<rightharpoonup> FieldMetadata) \<Rightarrow> string list \<Rightarrow> (err + gvalue list) list
   \<Rightarrow> TableRow list \<Rightarrow> nat \<Rightarrow> err + (TableRow list \<times> nat)"
where
  "scan_rows metaMap cols [] tableRows batchCount = Inr (tableRows, batchCount)"
| "scan_rows metaMap cols (r # rest) tableRows batchCount =
     (case rows_Scan cols r of
        Inl e \<Rightarrow> Inl e
      | Inr vals \<Rightarrow>
          scan_rows metaMap cols rest
            (tableRows @ [build_row metaMap cols vals Map.empty]) (batchCount + 1))"

text \<open>
  Lines 96-151: the loop. It ends when a batch has no rows; a database that never answers
  with an empty batch keeps it running, so the loop takes fuel and \<open>None\<close> is "has not
  returned yet".
\<close>

fun FetchTableData_loop ::
  "nat \<Rightarrow> database \<Rightarrow> TableMetadata \<Rightarrow> string list \<Rightarrow> nat \<Rightarrow> TableData
   \<Rightarrow> ((err + TableData) \<times> database) option"
where
  "FetchTableData_loop 0 db table filterColumns offset tableData = None"
| "FetchTableData_loop (Suc fuel) db table filterColumns offset tableData =
     (case db_Query db
             (PageQuery (strings_Join filterColumns '', '') (TableName table)
                BATCHSIZE_db offset) of
        (Inl e, db') \<Rightarrow> Some (Inl e, db')
      | (Inr rows, db') \<Rightarrow>
     (case rows_columns rows of
        Inl e \<Rightarrow> Some (Inl e, db')
      | Inr cols \<Rightarrow>
     (case scan_rows (meta_map (Fields table) Map.empty) cols (rows_scans rows)
             (Rows tableData) 0 of
        Inl e \<Rightarrow> Some (Inl e, db')
      | Inr (tableRows, batchCount) \<Rightarrow>
          if batchCount = 0 then Some (Inr (tableData\<lparr>Rows := tableRows\<rparr>), db')
          else FetchTableData_loop fuel db' table filterColumns (offset + BATCHSIZE_db)
                 (tableData\<lparr>Rows := tableRows\<rparr>))))"

definition FetchTableData ::
  "nat \<Rightarrow> database \<Rightarrow> TableMetadata \<Rightarrow> ((err + TableData) \<times> database) option"
where
  "FetchTableData fuel db table =
     FetchTableData_loop fuel db table (map FieldName (Fields table)) 0
       \<lparr>DataTableName = TableName table, Columns = Fields table, Rows = []\<rparr>"

subsection \<open>The row iterator (streaming revision, lines 17-151)\<close>

definition BATCHSIZE :: nat where "BATCHSIZE = 100000"

text \<open>The format string of the page query, which still lacks the offset.\<close>

datatype querytemplate = QueryTemplate string string nat

fun Sprintf_query :: "querytemplate \<Rightarrow> nat \<Rightarrow> pagequery" where
  "Sprintf_query (QueryTemplate columnsStr tableName limit) offset =
     PageQuery columnsStr tableName limit offset"

text \<open>
  The iterator's handle on the database is the \<open>database\<close> that \<open>Next\<close> takes and gives
  back. \<open>done_flag\<close> is the field \<^verbatim>\<open>done\<close>.
\<close>

record RowIterator =
  tableName :: string
  columns :: "string list"
  metadata :: "string \<rightharpoonup> FieldMetadata"
  offset :: nat
  query :: querytemplate
  currentRows :: "sqlrows option"
  currentBatch :: "TableRow list"
  batchIndex :: nat
  err :: "err option"
  done_flag :: bool

text \<open>
  Lines 35-59, with the page size as a parameter: the constructor writes it into the
  query once, and \<open>Next\<close> never looks at it again.
\<close>

definition NewRowIterator_sized :: "nat \<Rightarrow> TableMetadata \<Rightarrow> RowIterator" where
  "NewRowIterator_sized pageSize table =
     \<lparr>tableName = TableName table,
      columns = map FieldName (Fields table),
      metadata = meta_map (Fields table) Map.empty,
      offset = 0,
      query = QueryTemplate (strings_Join (map FieldName (Fields table)) '', '')
                (TableName table) pageSize,
      currentRows = None,
      currentBatch = [],
      batchIndex = 0,
      err = None,
      done_flag = False\<rparr>"

definition NewRowIterator :: "TableMetadata \<Rightarrow> RowIterator" where
  "NewRowIterator table = NewRowIterator_sized BATCHSIZE table"

text \<open>
  Lines 96-122: the rows of the batch are appended to \<^verbatim>\<open>ri.currentBatch\<close>; a scan
  error leaves the rows appended so far in place.
\<close>

fun scan_batch ::
  "(string \<rightharpoonup> FieldMetadata) \<Rightarrow> string list \<Rightarrow> (err + gvalue list) list
   \<Rightarrow> TableRow list \<Rightarrow> nat \<Rightarrow> err option \<times> TableRow list \<times> nat"
where
  "scan_batch metaMap cols [] batch batchCount = (None, batch, batchCount)"
| "scan_batch metaMap cols (r # rest) batch batchCount =
     (case rows_Scan cols r of
        Inl e \<Rightarrow> (Some e, batch, batchCount)
      | Inr vals \<Rightarrow>
          scan_batch metaMap cols rest
            (batch @ [build_row metaMap cols vals Map.empty]) (batchCount + 1))"

text \<open>Lines 134-137. The index is within the batch wherever \<open>Next\<close> gets here.\<close>

definition emit_row :: "RowIterator \<Rightarrow> database \<Rightarrow> TableRow option \<times> RowIterator \<times> database" where
  "emit_row ri db =
     (Some (currentBatch ri ! batchIndex ri), ri\<lparr>batchIndex := batchIndex ri + 1\<rparr>, db)"

text \<open>Lines 62-138.\<close>

definition Next :: "RowIterator \<Rightarrow> database \<Rightarrow> TableRow option \<times> RowIterator \<times> database" where
  "Next ri db =
     (if done_flag ri \<or> err ri \<noteq> None then (None, ri, db)
      else if currentRows ri = None \<or> batchIndex ri \<ge> length (currentBatch ri) then
        (case db_Query db (Sprintf_query (query ri) (offset ri)) of
           (Inl e, db') \<Rightarrow> (None, ri\<lparr>err := Some e, done_flag := True\<rparr>, db')
         | (Inr rows, db') \<Rightarrow>
        (case rows_columns rows of
           Inl e \<Rightarrow>
             (None,
              ri\<lparr>currentRows := Some rows, currentBatch := [], batchIndex := 0,
                 err := Some e, done_flag := True\<rparr>,
              db')
         | Inr cols \<Rightarrow>
        (case scan_batch (metadata ri) cols (rows_scans rows) [] 0 of
           (Some e, batch, batchCount) \<Rightarrow>
             (None,
              ri\<lparr>currentRows := Some rows, currentBatch := batch, batchIndex := 0,
                 err := Some e, done_flag := True\<rparr>,
              db')
         | (None, batch, batchCount) \<Rightarrow>
             if batchCount = 0 then
               (None,
                ri\<lparr>currentRows := Some rows, currentBatch := batch, batchIndex := 0,
                   done_flag := True\<rparr>,
                db')
             else
               emit_row
                 (ri\<lparr>currentRows := Some rows, currentBatch := batch, batchIndex := 0,
                     offset := offset ri + batchCount\<rparr>)
                 db')))
      else emit_row ri db)"

text \<open>Lines 141-143.\<close>

definition Error :: "RowIterator \<Rightarrow> err option" where
  "Error ri = err ri"

text \<open>\<open>n\<close> calls of \<open>Next\<close> in a row, with what each returned.\<close>

fun Next_calls ::
  "nat \<Rightarrow> RowIterator \<Rightarrow> database \<Rightarrow> TableRow option list \<times> RowIterator \<times> database"
where
  "Next_calls 0 ri db = ([], ri, db)"
| "Next_calls (Suc n) ri db =
     (case Next ri db of
        (r, ri', db') \<Rightarrow>
          (case Next_calls n ri' db' of
             (rs, ri'', db'') \<Rightarrow> (r # rs, ri'', db'')))"

text \<open>
  The loop \<^verbatim>\<open>for row, ok := it.Next(); ok; row, ok = it.Next()\<close> with a body that
  keeps the rows: it runs until \<open>Next\<close> returns false, and \<open>None\<close> is "has not got
  there with this fuel".
\<close>

fun iterate ::
  "nat \<Rightarrow> RowIterator \<Rightarrow> database \<Rightarrow> (TableRow list \<times> RowIterator \<times> database) option"
where
  "iterate 0 ri db = None"
| "iterate (Suc n) ri db =
     (case Next ri db of
        (None, ri', db') \<Rightarrow> Some ([], ri', db')
      | (Some row, ri', db') \<Rightarrow>
          (case iterate n ri' db' of
             None \<Rightarrow> None
           | Some (rows, ri'', db'') \<Rightarrow> Some (row # rows, ri'', db'')))"

text \<open>
  A database that holds one unchanging table and answers every page query in full: the
  rows from the offset on, at most as many as the limit.
\<close>

definition table_db :: "string list \<Rightarrow> gvalue list list \<Rightarrow> database" where
  "table_db cols tbl =
     \<lparr>answer = (\<lambda>q. Inr (SqlRows (Inr cols)
                          (map Inr (take (q_limit q) (drop (q_offset q) tbl))))),
      issued = []\<rparr>"

text \<open>
  A database whose answer to the first page is cut short after one row, although two
  more rows follow; and one whose first query fails.
\<close>

definition short_page_db :: database where
  "short_page_db =
     \<lparr>answer = (\<lambda>q.
        if q_offset q = 0 then Inr (SqlRows (Inr [''id'']) [Inr [GInt64 1]])
        else Inr (SqlRows (Inr [''id''])
               (map Inr (take (q_limit q) (drop (q_offset q)
                  [[GInt64 1], [GInt64 2], [GInt64 3]]))))),
      issued = []\<rparr>"

definition failing_db :: database where
  "failing_db = \<lparr>answer = (\<lambda>q. Inl ''connection refused''), issued = []\<rparr>"

definition ids_table :: TableMetadata where
  "ids_table = \<lparr>TableName = ''ids'', Fields = [plain_field ''id'' DataTypeInt False]\<rparr>"

text \<open>The row that both readers build from the scanned values of one database row.\<close>

definition row_of :: "(string \<rightharpoonup> FieldMetadata) \<Rightarrow> string list \<Rightarrow> gvalue list \<Rightarrow> TableRow" where
  "row_of m cols vals = build_row m cols vals Map.empty"

text \<open>
  The offsets of the page queries over a table of \<open>N\<close> rows from offset \<open>off\<close> on: one
  for every page that holds rows, and the last one at \<open>N\<close>.
\<close>

definition page_offsets :: "nat \<Rightarrow> nat \<Rightarrow> nat \<Rightarrow> nat list" where
  "page_offsets P N off = map (\<lambda>j. off + j * P) [0..<(N - off + P - 1) div P] @ [N]"

definition five_rows :: "gvalue list list" where
  "five_rows = [[GInt64 1], [GInt64 2], [GInt64 3], [GInt64 4], [GInt64 5]]"

section \<open>Writing the columns\<close>

text \<open>
  A column is a typed Go slice. What the Go library does to a value (conversions between
  numbers, \<^verbatim>\<open>fmt.Sprintf("%v", v)\<close>, \<^verbatim>\<open>Time.Format(time.RFC3339)\<close>,
  \<^verbatim>\<open>filepath.Join\<close>) and what the file system answers are parameters. A failed type
  assertion and an index out of range are panics.
\<close>

datatype colarray =
    Int64s "64 word list"
  | Float64s "64 word list"
  | Strings "string list"
  | Bools "bool list"
  | Ifaces "gvalue list"

datatype cell = CInt64 "64 word" | CFloat64 "64 word" | CString string | CBool bool | CIface gvalue

fun entries :: "colarray \<Rightarrow> cell list" where
  "entries (Int64s xs) = map CInt64 xs"
| "entries (Float64s xs) = map CFloat64 xs"
| "entries (Strings xs) = map CString xs"
| "entries (Bools xs) = map CBool xs"
| "entries (Ifaces xs) = map CIface xs"

definition alen :: "colarray \<Rightarrow> nat" where
  "alen a = length (entries a)"

datatype panic = TypeAssertionFailed | IndexOutOfRange

record golib =
  float64_to_int64 :: "64 word \<Rightarrow> 64 word"
  float32_to_float64 :: "32 word \<Rightarrow> 64 word"
  int_to_float64 :: "64 word \<Rightarrow> 64 word"
  Sprintf_v :: "gvalue \<Rightarrow> string"
  Format_RFC3339 :: "gotime \<Rightarrow> string"
  filepath_Join :: "string \<Rightarrow> string \<Rightarrow> string"

record filesys =
  os_MkdirAll :: "string \<Rightarrow> err option"
  os_Create :: "string \<Rightarrow> err option"
  npyio_Write :: "string \<Rightarrow> colarray \<Rightarrow> err option"

text \<open>The type assertions \<^verbatim>\<open>x.([]int64)\<close> and so on; a missing key is a nil interface.\<close>

fun as_int64s :: "colarray option \<Rightarrow> panic + 64 word list" where
  "as_int64s (Some (Int64s xs)) = Inr xs"
| "as_int64s other = Inl TypeAssertionFailed"

fun as_float64s :: "colarray option \<Rightarrow> panic + 64 word list" where
  "as_float64s (Some (Float64s xs)) = Inr xs"
| "as_float64s other = Inl TypeAssertionFailed"

fun as_strings :: "colarray option \<Rightarrow> panic + string list" where
  "as_strings (Some (Strings xs)) = Inr xs"
| "as_strings other = Inl TypeAssertionFailed"

fun as_bools :: "colarray option \<Rightarrow> panic + bool list" where
  "as_bools (Some (Bools xs)) = Inr xs"
| "as_bools other = Inl TypeAssertionFailed"

fun as_ifaces :: "colarray option \<Rightarrow> panic + gvalue list" where
  "as_ifaces (Some (Ifaces xs)) = Inr xs"
| "as_ifaces other = Inl TypeAssertionFailed"

subsection \<open>The streaming export (streaming revision, lines 455-653)\<close>

text \<open>Lines 485-498: an empty slice of the column's type (the capacity is not modelled).\<close>

definition new_column :: "string \<Rightarrow> colarray" where
  "new_column dt =
     (if dt = DataTypeInt then Int64s []
      else if dt = DataTypeFloat then Float64s []
      else if dt = DataTypeString \<or> dt = DataTypeDate \<or> dt = DataTypeTime
              \<or> dt = DataTypeUUID \<or> dt = DataTypeNull then Strings []
      else if dt = DataTypeBool then Bools []
      else Strings [])"

fun new_columns :: "FieldMetadata list \<Rightarrow> (string \<rightharpoonup> colarray) \<Rightarrow> (string \<rightharpoonup> colarray)" where
  "new_columns [] columnData = columnData"
| "new_columns (col # cols) columnData =
     new_columns cols (columnData(FieldName col \<mapsto> new_column (DataType col)))"

text \<open>Lines 513-527, 532-546, 551-562, 567-576 and 581-585: the value that is appended.\<close>

fun int_entry :: "golib \<Rightarrow> gvalue \<Rightarrow> 64 word" where
  "int_entry lib GNil = 0"
| "int_entry lib (GInt64 v) = v"
| "int_entry lib (GInt v) = v"
| "int_entry lib (GFloat64 v) = float64_to_int64 lib v"
| "int_entry lib other = 0"

fun float_entry :: "golib \<Rightarrow> gvalue \<Rightarrow> 64 word" where
  "float_entry lib GNil = 0"
| "float_entry lib (GFloat64 v) = v"
| "float_entry lib (GFloat32 v) = float32_to_float64 lib v"
| "float_entry lib (GInt v) = int_to_float64 lib v"
| "float_entry lib other = 0"

fun string_entry :: "golib \<Rightarrow> gvalue \<Rightarrow> string" where
  "string_entry lib GNil = []"
| "string_entry lib (GString v) = v"
| "string_entry lib (GTime v) = Format_RFC3339 lib v"
| "string_entry lib other = Sprintf_v lib other"

fun bool_entry :: "golib \<Rightarrow> gvalue \<Rightarrow> bool" where
  "bool_entry lib GNil = False"
| "bool_entry lib (GBool v) = v"
| "bool_entry lib other = False"

fun default_entry :: "golib \<Rightarrow> gvalue \<Rightarrow> string" where
  "default_entry lib GNil = []"
| "default_entry lib other = Sprintf_v lib other"

text \<open>Lines 507-588: one value of a row is appended to the slice of its column.\<close>

definition append_cell ::
  "golib \<Rightarrow> (string \<rightharpoonup> colarray) \<Rightarrow> TableRow \<Rightarrow> FieldMetadata \<Rightarrow> panic + (string \<rightharpoonup> colarray)"
where
  "append_cell lib columnData row col =
     (let v = row_get row (FieldName col); dt = DataType col in
      if dt = DataTypeInt then
        (case as_int64s (columnData (FieldName col)) of
           Inl p \<Rightarrow> Inl p
         | Inr array \<Rightarrow> Inr (columnData(FieldName col \<mapsto> Int64s (array @ [int_entry lib v]))))
      else if dt = DataTypeFloat then
        (case as_float64s (columnData (FieldName col)) of
           Inl p \<Rightarrow> Inl p
         | Inr array \<Rightarrow> Inr (columnData(FieldName col \<mapsto> Float64s (array @ [float_entry lib v]))))
      else if dt = DataTypeString \<or> dt = DataTypeDate \<or> dt = DataTypeTime
              \<or> dt = DataTypeUUID \<or> dt = DataTypeNull then
        (case as_strings (columnData (FieldName col)) of
           Inl p \<Rightarrow> Inl p
         | Inr array \<Rightarrow> Inr (columnData(FieldName col \<mapsto> Strings (array @ [string_entry lib v]))))
      else if dt = DataTypeBool then
        (case as_bools (columnData (FieldName col)) of
           Inl p \<Rightarrow> Inl p
         | Inr array \<Rightarrow> Inr (columnData(FieldName col \<mapsto> Bools (array @ [bool_entry lib v]))))
      else
        (case as_strings (columnData (FieldName col)) of
           Inl p \<Rightarrow> Inl p
         | Inr array \<Rightarrow> Inr (columnData(FieldName col \<mapsto> Strings (array @ [default_entry lib v])))))"

fun append_row ::
  "golib \<Rightarrow> FieldMetadata list \<Rightarrow> TableRow \<Rightarrow> (string \<rightharpoonup> colarray) \<Rightarrow> panic + (string \<rightharpoonup> colarray)"
where
  "append_row lib [] row columnData = Inr columnData"
| "append_row lib (col # cols) row columnData =
     (case append_cell lib columnData row col of
        Inl p \<Rightarrow> Inl p
      | Inr columnData' \<Rightarrow> append_row lib cols row columnData')"

text \<open>
  Lines 505-597: the loop over the iterator. It ends when \<open>Next\<close> returns false; it
  takes fuel, and \<open>None\<close> is "has not got there with this fuel".
\<close>

fun stream_loop ::
  "golib \<Rightarrow> nat \<Rightarrow> FieldMetadata list \<Rightarrow> RowIterator \<Rightarrow> database \<Rightarrow> (string \<rightharpoonup> colarray) \<Rightarrow> nat
   \<Rightarrow> (panic + ((string \<rightharpoonup> colarray) \<times> nat \<times> RowIterator \<times> database)) option"
where
  "stream_loop lib 0 flds ri db columnData rowCount = None"
| "stream_loop lib (Suc fuel) flds ri db columnData rowCount =
     (case Next ri db of
        (None, ri', db') \<Rightarrow> Some (Inr (columnData, rowCount, ri', db'))
      | (Some row, ri', db') \<Rightarrow>
          (case append_row lib flds row columnData of
             Inl p \<Rightarrow> Some (Inl p)
           | Inr columnData' \<Rightarrow>
               stream_loop lib fuel flds ri' db' columnData' (rowCount + 1)))"

text \<open>
  Lines 605-649: every column is written to its own file; the first failure ends the
  export, and the files written before it stay. The type switch repeats the assertion.
\<close>

definition checked_column :: "string \<Rightarrow> colarray option \<Rightarrow> panic + colarray" where
  "checked_column dt a =
     (if dt = DataTypeInt then map_sum id Int64s (as_int64s a)
      else if dt = DataTypeFloat then map_sum id Float64s (as_float64s a)
      else if dt = DataTypeString \<or> dt = DataTypeDate \<or> dt = DataTypeTime
              \<or> dt = DataTypeUUID \<or> dt = DataTypeNull then map_sum id Strings (as_strings a)
      else if dt = DataTypeBool then map_sum id Bools (as_bools a)
      else map_sum id Strings (as_strings a))"

fun write_columns ::
  "filesys \<Rightarrow> golib \<Rightarrow> string \<Rightarrow> FieldMetadata list \<Rightarrow> (string \<rightharpoonup> colarray)
   \<Rightarrow> (string \<times> colarray) list \<Rightarrow> panic + (err option \<times> (string \<times> colarray) list)"
where
  "write_columns fs lib tableDir [] columnData written = Inr (None, written)"
| "write_columns fs lib tableDir (col # cols) columnData written =
     (let fileName = filepath_Join lib tableDir (FieldName col @ ''.npy'') in
      case os_Create fs fileName of
        Some e \<Rightarrow>
          Inr (Some (''failed to create file for column '' @ FieldName col @ '': '' @ e),
               written)
      | None \<Rightarrow>
          (case checked_column (DataType col) (columnData (FieldName col)) of
             Inl p \<Rightarrow> Inl p
           | Inr array \<Rightarrow>
               (case npyio_Write fs fileName array of
                  Some e \<Rightarrow>
                    Inr (Some (''failed to write NPY file for column '' @ FieldName col
                               @ '': '' @ e),
                         written)
                | None \<Rightarrow>
                    write_columns fs lib tableDir cols columnData
                      (written @ [(fileName, array)]))))"

text \<open>
  What an export gives back: the error it returns (\<open>None\<close> for nil), the files it has
  written with their contents, and the number of rows it has counted.
\<close>

datatype export = Export (ret_err: "err option") (files: "(string \<times> colarray) list") (rowCount: nat)

text \<open>
  Lines 455-653. The row count that is asked for first only sizes the slices and is not
  modelled. \<open>None\<close> is "has not returned with this fuel", \<open>Inl\<close> a panic.
\<close>

definition saveTableToNumpy ::
  "filesys \<Rightarrow> golib \<Rightarrow> nat \<Rightarrow> database \<Rightarrow> TableMetadata \<Rightarrow> (panic + export) option"
where
  "saveTableToNumpy fs lib fuel db table =
     (let tableDir = filepath_Join lib ''data'' (TableName table) in
      case os_MkdirAll fs tableDir of
        Some e \<Rightarrow>
          Some (Inr (Export (Some (''failed to create directory for table ''
                                    @ TableName table @ '': '' @ e)) [] 0))
      | None \<Rightarrow>
          (case stream_loop lib fuel (Fields table) (NewRowIterator table) db
                  (new_columns (Fields table) Map.empty) 0 of
             None \<Rightarrow> None
           | Some (Inl p) \<Rightarrow> Some (Inl p)
           | Some (Inr (columnData, n, ri, db')) \<Rightarrow>
               (case Error ri of
                  Some e \<Rightarrow> Some (Inr (Export (Some (''error during iteration: '' @ e)) [] n))
                | None \<Rightarrow>
                    (case write_columns fs lib tableDir (Fields table) columnData [] of
                       Inl p \<Rightarrow> Some (Inl p)
                     | Inr (e, written) \<Rightarrow> Some (Inr (Export e written n))))))"

subsection \<open>The export of a table held in memory (earlier revision of the exporter, lines 14-152)\<close>

text \<open>Lines 19-41: a slice of \<open>nrows\<close> zero values of the column's type.\<close>

definition make_array :: "string \<Rightarrow> nat \<Rightarrow> colarray" where
  "make_array dt nrows =
     (if dt = DataTypeInt then Int64s (replicate nrows 0)
      else if dt = DataTypeFloat then Float64s (replicate nrows 0)
      else if dt = DataTypeString \<or> dt = DataTypeDate then Strings (replicate nrows [])
      else if dt = DataTypeBool then Bools (replicate nrows False)
      else if dt = DataTypeUUID then Strings (replicate nrows [])
      else if dt = DataTypeTime then Strings (replicate nrows [])
      else if dt = DataTypeNull then Strings (replicate nrows [])
      else Ifaces (replicate nrows GNil))"

fun make_arrays ::
  "FieldMetadata list \<Rightarrow> nat \<Rightarrow> (string \<rightharpoonup> colarray) \<Rightarrow> (string \<rightharpoonup> colarray)"
where
  "make_arrays [] nrows arrays = arrays"
| "make_arrays (col # cols) nrows arrays =
     make_arrays cols nrows (arrays(FieldName col \<mapsto> make_array (DataType col) nrows))"

text \<open>
  Lines 48-136: the value that is stored; \<open>None\<close> where the code only logs and leaves the
  entry as it is.
\<close>

fun int_store :: "golib \<Rightarrow> gvalue \<Rightarrow> 64 word option" where
  "int_store lib GNil = Some 0"
| "int_store lib (GInt64 v) = Some v"
| "int_store lib (GInt v) = Some v"
| "int_store lib (GFloat64 v) = Some (float64_to_int64 lib v)"
| "int_store lib other = None"

fun float_store :: "golib \<Rightarrow> gvalue \<Rightarrow> 64 word option" where
  "float_store lib GNil = Some 0"
| "float_store lib (GFloat64 v) = Some v"
| "float_store lib (GFloat32 v) = Some (float32_to_float64 lib v)"
| "float_store lib (GInt v) = Some (int_to_float64 lib v)"
| "float_store lib other = None"

fun string_store :: "golib \<Rightarrow> gvalue \<Rightarrow> string" where
  "string_store lib GNil = []"
| "string_store lib (GString v) = v"
| "string_store lib other = Sprintf_v lib other"

fun bool_store :: "golib \<Rightarrow> gvalue \<Rightarrow> bool option" where
  "bool_store lib GNil = Some False"
| "bool_store lib (GBool v) = Some v"
| "bool_store lib other = None"

fun uuid_store :: "golib \<Rightarrow> gvalue \<Rightarrow> string" where
  "uuid_store lib GNil = ''null''"
| "uuid_store lib (GString v) = v"
| "uuid_store lib other = Sprintf_v lib other"

fun time_store :: "golib \<Rightarrow> gvalue \<Rightarrow> string" where
  "time_store lib GNil = ''null''"
| "time_store lib (GTime v) = Format_RFC3339 lib v"
| "time_store lib (GString v) = v"
| "time_store lib other = Sprintf_v lib other"

fun null_store :: "golib \<Rightarrow> gvalue \<Rightarrow> string" where
  "null_store lib GNil = ''null''"
| "null_store lib (GString s) = s"
| "null_store lib other = Sprintf_v lib other"

text \<open>\<^verbatim>\<open>arr[r] = x\<close>, or nothing where there is no \<open>x\<close>.\<close>

definition put :: "nat \<Rightarrow> 'a option \<Rightarrow> 'a list \<Rightarrow> panic + 'a list" where
  "put r x arr =
     (case x of
        None \<Rightarrow> Inr arr
      | Some y \<Rightarrow> if r < length arr then Inr (arr[r := y]) else Inl IndexOutOfRange)"

text \<open>Lines 45-141: the value of row \<open>r\<close> is stored in the slice of its column.\<close>

definition store_cell ::
  "golib \<Rightarrow> (string \<rightharpoonup> colarray) \<Rightarrow> nat \<Rightarrow> TableRow \<Rightarrow> FieldMetadata
   \<Rightarrow> panic + (string \<rightharpoonup> colarray)"
where
  "store_cell lib arrays r row col =
     (let v = row_get row (FieldName col); dt = DataType col; name = FieldName col in
      if dt = DataTypeInt then
        (case as_int64s (arrays name) of Inl p \<Rightarrow> Inl p
         | Inr arr \<Rightarrow> map_sum id (\<lambda>a. arrays(name \<mapsto> Int64s a)) (put r (int_store lib v) arr))
      else if dt = DataTypeFloat then
        (case as_float64s (arrays name) of Inl p \<Rightarrow> Inl p
         | Inr arr \<Rightarrow> map_sum id (\<lambda>a. arrays(name \<mapsto> Float64s a)) (put r (float_store lib v) arr))
      else if dt = DataTypeString \<or> dt = DataTypeDate then
        (case as_strings (arrays name) of Inl p \<Rightarrow> Inl p
         | Inr arr \<Rightarrow>
             map_sum id (\<lambda>a. arrays(name \<mapsto> Strings a)) (put r (Some (string_store lib v)) arr))
      else if dt = DataTypeBool then
        (case as_bools (arrays name) of Inl p \<Rightarrow> Inl p
         | Inr arr \<Rightarrow> map_sum id (\<lambda>a. arrays(name \<mapsto> Bools a)) (put r (bool_store lib v) arr))
      else if dt = DataTypeUUID then
        (case as_strings (arrays name) of Inl p \<Rightarrow> Inl p
         | Inr arr \<Rightarrow>
             map_sum id (\<lambda>a. arrays(name \<mapsto> Strings a)) (put r (Some (uuid_store lib v)) arr))
      else if dt = DataTypeTime then
        (case as_strings (arrays name) of Inl p \<Rightarrow> Inl p
         | Inr arr \<Rightarrow>
             map_sum id (\<lambda>a. arrays(name \<mapsto> Strings a)) (put r (Some (time_store lib v)) arr))
      else if dt = DataTypeNull then
        (case as_strings (arrays name) of Inl p \<Rightarrow> Inl p
         | Inr arr \<Rightarrow>
             map_sum id (\<lambda>a. arrays(name \<mapsto> Strings a)) (put r (Some (null_store lib v)) arr))
      else
        (case as_ifaces (arrays name) of Inl p \<Rightarrow> Inl p
         | Inr arr \<Rightarrow> map_sum id (\<lambda>a. arrays(name \<mapsto> Ifaces a)) (put r (Some v) arr)))"

fun store_row ::
  "golib \<Rightarrow> FieldMetadata list \<Rightarrow> nat \<Rightarrow> TableRow \<Rightarrow> (string \<rightharpoonup> colarray)
   \<Rightarrow> panic + (string \<rightharpoonup> colarray)"
where
  "store_row lib [] r row arrays = Inr arrays"
| "store_row lib (col # cols) r row arrays =
     (case store_cell lib arrays r row col of
        Inl p \<Rightarrow> Inl p
      | Inr arrays' \<Rightarrow> store_row lib cols r row arrays')"

fun store_rows ::
  "golib \<Rightarrow> FieldMetadata list \<Rightarrow> nat \<Rightarrow> TableRow list \<Rightarrow> (string \<rightharpoonup> colarray)
   \<Rightarrow> panic + (string \<rightharpoonup> colarray)"
where
  "store_rows lib cols r [] arrays = Inr arrays"
| "store_rows lib cols r (row # rest) arrays =
     (case store_row lib cols r row arrays of
        Inl p \<Rightarrow> Inl p
      | Inr arrays' \<Rightarrow> store_rows lib cols (r + 1) rest arrays')"

text \<open>
  Lines 14-152: the file name and the columns that are handed to \<^verbatim>\<open>npz.Write\<close>, whose
  failure ends the process.
\<close>

definition saveTableToNumpy_npz ::
  "golib \<Rightarrow> TableData \<Rightarrow> panic + (string \<times> (string \<rightharpoonup> colarray))"
where
  "saveTableToNumpy_npz lib table =
     (case store_rows lib (Columns table) 0 (Rows table)
             (make_arrays (Columns table) (length (Rows table)) Map.empty) of
        Inl p \<Rightarrow> Inl p
      | Inr arrays \<Rightarrow> Inr (''data/'' @ DataTableName table @ ''.npz'', arrays))"

text \<open>
  The entry for a null value, by canonical type, in each of the two exporters; and a
  library and a file system for the examples.
\<close>

definition null_entry_stream :: "string \<Rightarrow> cell" where
  "null_entry_stream dt =
     (if dt = DataTypeInt then CInt64 0
      else if dt = DataTypeFloat then CFloat64 0
      else if dt = DataTypeBool then CBool False
      else CString [])"

definition null_entry_npz :: "string \<Rightarrow> cell" where
  "null_entry_npz dt =
     (if dt = DataTypeInt then CInt64 0
      else if dt = DataTypeFloat then CFloat64 0
      else if dt = DataTypeString \<or> dt = DataTypeDate then CString []
      else if dt = DataTypeBool then CBool False
      else if dt = DataTypeUUID \<or> dt = DataTypeTime \<or> dt = DataTypeNull then CString ''null''
      else CIface GNil)"

definition plain_lib :: golib where
  "plain_lib =
     \<lparr>float64_to_int64 = (\<lambda>w. w), float32_to_float64 = (\<lambda>w. 0), int_to_float64 = (\<lambda>w. w),
      Sprintf_v = (\<lambda>v. ''?''), Format_RFC3339 = (\<lambda>t. ''T''),
      filepath_Join = (\<lambda>a b. a @ ''/'' @ b)\<rparr>"

definition good_fs :: filesys where
  "good_fs = \<lparr>os_MkdirAll = (\<lambda>p. None), os_Create = (\<lambda>p. None), npyio_Write = (\<lambda>p a. None)\<rparr>"

text \<open>
  The table \<^verbatim>\<open>users(id int, name text, deleted_at timestamp null)\<close> with three rows,
  the last with a null \<^verbatim>\<open>deleted_at\<close>.
\<close>

definition users_table :: TableMetadata where
  "users_table =
     \<lparr>TableName = ''users'',
      Fields = [plain_field ''id'' DataTypeInt False, plain_field ''name'' DataTypeString False,
                plain_field ''deleted_at'' DataTypeTime True]\<rparr>"

definition users_rows :: "gvalue list list" where
  "users_rows =
     [[GInt64 1, GString ''ann'', GString ''2024-01-01''],
      [GInt64 2, GString ''bob'', GString ''2024-02-02''],
      [GInt64 3, GString ''cy'', GNil]]"

section \<open>Type mapping and value conversion\<close>

lemma mapDataType_cases:
  "mapDataType p = DataTypeString \<or> mapDataType p = DataTypeInt
   \<or> mapDataType p = DataTypeFloat \<or> mapDataType p = DataTypeBool
   \<or> mapDataType p = DataTypeTime \<or> mapDataType p = DataTypeDate
   \<or> mapDataType p = DataTypeUUID"
  unfolding mapDataType_def by simp

lemma mapDataType_unknown:
  "p \<notin> set known_pg_types \<Longrightarrow> mapDataType p = DataTypeString"
  unfolding mapDataType_def known_pg_types_def by simp

text \<open>
  C9: the mapping is a total function, so every database type string gets exactly one
  result; the result is a member of the closed set of eight canonical types; and a type
  string that is not a key of the lookup table is mapped to \<open>DataTypeString\<close>.
\<close>

theorem C9_mapDataType_total_default:
  "mapDataType pgType \<in> set canonical_types
   \<and> distinct canonical_types \<and> length canonical_types = 8
   \<and> (pgType \<notin> set known_pg_types \<longrightarrow> mapDataType pgType = DataTypeString)"
proof -
  have "mapDataType pgType \<in> set canonical_types"
    using mapDataType_cases [of pgType] unfolding canonical_types_def by auto
  moreover have "distinct canonical_types" "length canonical_types = 8"
    unfolding canonical_types_def DataType_defs by simp_all
  ultimately show ?thesis using mapDataType_unknown by blast
qed

theorem C9_witness:
  "mapDataType ''jsonb'' \<in> set canonical_types
   \<and> ''jsonb'' \<notin> set known_pg_types
   \<and> mapDataType ''jsonb'' = DataTypeString
   \<and> mapDataType ''bigint'' = DataTypeInt"
proof -
  have a: "''jsonb'' \<notin> set known_pg_types"
    unfolding known_pg_types_def by simp
  have b: "mapDataType ''bigint'' = DataTypeInt"
    unfolding mapDataType_def by simp
  from C9_mapDataType_total_default [of "''jsonb''"] a b show ?thesis by blast
qed

section \<open>Schema discovery: foreign keys, failures, determinism\<close>

lemma scan_columns_wf:
  "scan_columns rs acc = Inr fs \<Longrightarrow> list_all fk_wf acc \<Longrightarrow> list_all fk_wf fs"
  by (induction rs acc rule: scan_columns.induct) (auto simp: fk_wf_def)

lemma mark_pks_wf: "list_all fk_wf fs \<Longrightarrow> list_all fk_wf (mark_pks fs m)"
  by (induction fs) (auto simp: mark_pks_def fk_wf_def)

lemma mark_fks_wf: "list_all fk_wf fs \<Longrightarrow> list_all fk_wf (mark_fks fs m)"
  by (induction fs) (auto simp: mark_fks_def fk_wf_def split: option.splits)

lemma table_body_wf: "table_body db t = Inr tm \<Longrightarrow> list_all fk_wf (Fields tm)"
  unfolding table_body_def
  by (auto split: sum.splits dest!: scan_columns_wf intro!: mark_fks_wf mark_pks_wf)

lemma tables_loop_wf:
  "tables_loop db tns rows s = (s', e) \<Longrightarrow> list_all (\<lambda>t. list_all fk_wf (Fields t)) (Tables s)
   \<Longrightarrow> list_all (\<lambda>t. list_all fk_wf (Fields t)) (Tables s')"
  by (induction db tns rows s rule: tables_loop.induct)
     (auto split: if_splits sum.splits dest: table_body_wf)

lemma close_field_wf: "fk_wf f \<Longrightarrow> fk_wf (close_field tns f)"
  by (auto simp: close_field_def fk_wf_def split: option.splits)

lemma close_field_closed:
  "IsForeignKey (close_field tns f) \<Longrightarrow> fk_wf f \<Longrightarrow> \<exists>r. ReferencedTable (close_field tns f) = Some r \<and> r \<in> set tns"
  by (auto simp: close_field_def fk_wf_def split: option.splits if_splits)

lemma fk_closure_wf:
  "list_all (\<lambda>t. list_all fk_wf (Fields t)) ts \<Longrightarrow>
   list_all (\<lambda>t. list_all fk_wf (Fields t)) (fk_closure tns ts)"
  unfolding fk_closure_def
  by (induction ts) (auto simp: list_all_iff close_field_wf)

lemma fk_closure_closed:
  assumes "list_all (\<lambda>t. list_all fk_wf (Fields t)) ts"
    and "t \<in> set (fk_closure tns ts)" and "f \<in> set (Fields t)" and "IsForeignKey f"
  shows "\<exists>r. ReferencedTable f = Some r \<and> r \<in> set tns"
proof -
  from assms(2) obtain t0 where t0: "t0 \<in> set ts"
    and t: "t = t0\<lparr>Fields := map (close_field tns) (Fields t0)\<rparr>"
    unfolding fk_closure_def by auto
  from assms(3) t obtain f0 where f0: "f0 \<in> set (Fields t0)" and f: "f = close_field tns f0"
    by auto
  from assms(1) t0 f0 have "fk_wf f0" by (auto simp: list_all_iff)
  with assms(4) f show ?thesis using close_field_closed by blast
qed

lemma fetchMetadata_success:
  assumes "fetchMetadata db dbName tableNames = (schema, None)"
  shows "\<exists>rows s. tables_query db = Inr (rows, None)
           \<and> tables_loop db (elems tableNames) rows zero_schema = (s, None)
           \<and> Tables schema = fk_closure (elems tableNames) (Tables s)
           \<and> SourceDetails (Dataset schema)
               = Some [(''database_type'', DString ''PostgreSQL''),
                       (''tables_or_collections'', DStrings tableNames)]"
  using assms unfolding fetchMetadata_def
  by (auto split: sum.splits prod.splits option.splits)

text \<open>
  C3: when discovery succeeds, every field of every table of the returned schema has
  \<open>IsForeignKey\<close> set if and only if both \<open>ReferencedTable\<close> and
  \<open>ReferencedField\<close> are present, and a field with \<open>IsForeignKey\<close> set refers to a
  table of the selection; so a field whose referenced table is outside the selection has
  the flag cleared and both pointers absent (a field without the flag has neither
  pointer).
\<close>

theorem C3_fk_closure_invariant:
  assumes "fetchMetadata db dbName tableNames = (schema, None)"
  shows "\<forall>t \<in> set (Tables schema). \<forall>f \<in> set (Fields t).
           (IsForeignKey f \<longleftrightarrow> (ReferencedTable f \<noteq> None \<and> ReferencedField f \<noteq> None))
           \<and> (IsForeignKey f \<longrightarrow>
                (\<exists>r. ReferencedTable f = Some r \<and> r \<in> set (elems tableNames)))
           \<and> (\<not> IsForeignKey f \<longrightarrow> ReferencedTable f = None \<and> ReferencedField f = None)"
proof -
  from fetchMetadata_success [OF assms] obtain rows s where
    loop: "tables_loop db (elems tableNames) rows zero_schema = (s, None)"
    and tabs: "Tables schema = fk_closure (elems tableNames) (Tables s)" by blast
  have wf0: "list_all (\<lambda>t. list_all fk_wf (Fields t)) (Tables zero_schema)"
    by (simp add: zero_schema_def)
  from tables_loop_wf [OF loop wf0]
  have wf: "list_all (\<lambda>t. list_all fk_wf (Fields t)) (Tables s)" .
  from fk_closure_wf [OF wf, of "elems tableNames"] tabs
  have wf': "list_all (\<lambda>t. list_all fk_wf (Fields t)) (Tables schema)" by simp
  show ?thesis
  proof (intro ballI conjI impI)
    fix t f assume tf: "t \<in> set (Tables schema)" "f \<in> set (Fields t)"
    from wf' tf have "fk_wf f" by (auto simp: list_all_iff)
    then show "IsForeignKey f \<longleftrightarrow> (ReferencedTable f \<noteq> None \<and> ReferencedField f \<noteq> None)"
      by (auto simp add: fk_wf_def)
    {
      assume "IsForeignKey f"
      with fk_closure_closed [OF wf] tf tabs
      show "\<exists>r. ReferencedTable f = Some r \<and> r \<in> set (elems tableNames)" by simp
    }
    {
      assume "\<not> IsForeignKey f"
      with \<open>fk_wf f\<close> show "ReferencedTable f = None" and "ReferencedField f = None"
        by (auto simp add: fk_wf_def)
    }
  qed
qed

lemma fetch_sessions:
  "fetchMetadata catalog_sessions ''db'' (Some [''users'', ''sessions'']) =
     (\<lparr>Dataset =
         \<lparr>DatasetName = ''db'', SourceType = ''Relational Database'',
          SourceDetails =
            Some [(''database_type'', DString ''PostgreSQL''),
                  (''tables_or_collections'', DStrings (Some [''users'', ''sessions'']))]\<rparr>,
       Tables =
         [\<lparr>TableName = ''users'',
           Fields = [(plain_field ''id'' ''int'' False)\<lparr>IsPrimaryKey := True\<rparr>]\<rparr>,
          \<lparr>TableName = ''sessions'',
           Fields =
             [(plain_field ''user_id'' ''int'' False)
                \<lparr>IsForeignKey := True, ReferencedTable := Some ''users'',
                 ReferencedField := Some ''id''\<rparr>,
              plain_field ''org_id'' ''int'' True]\<rparr>]\<rparr>,
      None)"
  by (simp add: fetchMetadata_def catalog_sessions_def zero_schema_def zero_dataset_def
      table_body_def mark_pks_def mark_fks_def fk_closure_def close_field_def
      mapDataType_def DataType_defs plain_field_def elems_def)

theorem C3_witness:
  "snd (fetchMetadata catalog_sessions ''db'' (Some [''users'', ''sessions''])) = None
   \<and> map (\<lambda>t. map (\<lambda>f. (FieldName f, IsForeignKey f, ReferencedTable f, ReferencedField f))
                (Fields t))
        (Tables (fst (fetchMetadata catalog_sessions ''db'' (Some [''users'', ''sessions'']))))
     = [[(''id'', False, None, None)],
        [(''user_id'', True, Some ''users'', Some ''id''), (''org_id'', False, None, None)]]"
  using C3_fk_closure_invariant [OF fetch_sessions] fetch_sessions
  by (simp add: plain_field_def)






lemma tables_loop_Dataset: "Dataset (fst (tables_loop db tns rows s)) = Dataset s"
  by (induction db tns rows s rule: tables_loop.induct) (auto split: sum.splits)


lemma fetchMetadata_err:
  assumes "snd (fetchMetadata db dbName tns) \<noteq> None"
  shows "Dataset (fst (fetchMetadata db dbName tns)) = zero_dataset
         \<and> (tables_query db = Inl e \<longrightarrow> Tables (fst (fetchMetadata db dbName tns)) = [])
         \<and> (tables_query db = Inr (rows, rowsErr) \<longrightarrow>
              fst (fetchMetadata db dbName tns)
                = fst (tables_loop db (elems tns) rows zero_schema))"
proof (cases "tables_query db")
  case (Inl e') then show ?thesis by (simp add: fetchMetadata_def zero_schema_def)
next
  case (Inr p)
  obtain rows' rowsErr' where p: "p = (rows', rowsErr')" by (cases p)
  obtain s e' where l: "tables_loop db (elems tns) rows' zero_schema = (s, e')"
    by (cases "tables_loop db (elems tns) rows' zero_schema")
  from tables_loop_Dataset [of db "elems tns" rows' zero_schema] l
  have "Dataset s = zero_dataset" by (simp add: zero_schema_def)
  with Inr p l assms show ?thesis
    by (cases e'; cases rowsErr') (auto simp add: fetchMetadata_def)
qed








text \<open>
  A result set of a column query that breaks off is not among the failures that are
  checked for: discovery returns no error, and the table has the columns read so far.
\<close>

lemma fetch_truncated:
  "snd (fetchMetadata catalog_truncated ''db'' (Some [''users'', ''sessions''])) = None
   \<and> map (\<lambda>t. (TableName t, map FieldName (Fields t)))
       (Tables (fst (fetchMetadata catalog_truncated ''db'' (Some [''users'', ''sessions'']))))
     = [(''users'', [''id'']), (''sessions'', [''user_id''])]"
  by (simp add: fetchMetadata_def catalog_truncated_def catalog_sessions_def zero_schema_def
      table_body_def mark_pks_def mark_fks_def fk_closure_def close_field_def elems_def)

lemma table_body_cong:
  "columns_query c1 t = columns_query c2 t \<Longrightarrow> pk_query c1 t = pk_query c2 t
   \<Longrightarrow> fk_query c1 t = fk_query c2 t \<Longrightarrow> table_body c1 t = table_body c2 t"
  by (simp add: table_body_def cong: sum.case_cong)

lemma tables_loop_cong:
  assumes "\<forall>t \<in> set tns. columns_query c1 t = columns_query c2 t
             \<and> pk_query c1 t = pk_query c2 t \<and> fk_query c1 t = fk_query c2 t"
  shows "tables_loop c1 tns rows s = tables_loop c2 tns rows s"
  using assms
proof (induction c1 tns rows s rule: tables_loop.induct)
  case (3 db tableNames tableName rest schema)
  show ?case
  proof (cases "tableName \<in> set tableNames")
    case False with 3 show ?thesis by simp
  next
    case True
    with 3(3) have eq: "table_body db tableName = table_body c2 tableName"
      by (intro table_body_cong) auto
    show ?thesis
    proof (cases "table_body c2 tableName")
      case (Inl e) with True eq show ?thesis by simp
    next
      case (Inr tm)
      with True eq 3(2) [OF _ _ 3(3)] show ?thesis by simp
    qed
  qed
qed simp_all

lemma fetchMetadata_cong:
  assumes "tables_query c1 = tables_query c2"
    and "\<forall>t \<in> set (elems tableNames). columns_query c1 t = columns_query c2 t
           \<and> pk_query c1 t = pk_query c2 t \<and> fk_query c1 t = fk_query c2 t"
  shows "fetchMetadata c1 dbName tableNames = fetchMetadata c2 dbName tableNames"
  unfolding fetchMetadata_def using assms(1) tables_loop_cong [OF assms(2)]
  by (simp cong: sum.case_cong prod.case_cong)

lemma filter_key_singleton:
  "distinct (map f xs) \<Longrightarrow> k \<in> set xs \<Longrightarrow> filter (\<lambda>x. f k = f x) xs = [k]"
proof (induction xs)
  case Nil
  then show ?case by simp
next
  case (Cons x xs)
  show ?case
  proof (cases "k = x")
    case True
    with Cons.prems(1) have "filter (\<lambda>y. f k = f y) xs = []"
      by (auto simp: filter_empty_conv)
    with True show ?thesis by simp
  next
    case False
    with Cons.prems have kx: "k \<in> set xs" by simp
    from Cons.prems(1) have "f x \<notin> f ` set xs" by simp
    moreover from kx have "f k \<in> f ` set xs" by (rule imageI)
    ultimately have ne: "f k \<noteq> f x" by auto
    from Cons.prems(1) have "distinct (map f xs)" by simp
    from Cons.IH [OF this kx] have "filter (\<lambda>y. f k = f y) xs = [k]" .
    with ne show ?thesis by simp
  qed
qed

lemma sort_key_iteration:
  assumes d: "distinct (map fst kvs)" and p: "mset p = mset kvs"
  shows "sort_key fst p = sort_key fst kvs"
proof -
  define ys where "ys = sort_key fst kvs"
  have a: "mset ys = mset p" using p by (simp add: ys_def)
  have c: "sorted (map fst ys)" by (simp add: ys_def)
  have "mset (map fst p) = mset (map fst kvs)" using p by simp
  with d have dp: "distinct (map fst p)" by (metis mset_eq_imp_distinct_iff)
  have "mset (map fst ys) = mset (map fst kvs)" by (simp add: ys_def)
  with d have ds: "distinct (map fst ys)" by (metis mset_eq_imp_distinct_iff)
  have b: "filter (\<lambda>x. fst k = fst x) ys = filter (\<lambda>x. fst k = fst x) p"
    if k: "k \<in> set ys" for k
  proof -
    from k a have kp: "k \<in> set p" by (metis mset_eq_setD)
    show ?thesis
      by (simp only: filter_key_singleton [OF ds k] filter_key_singleton [OF dp kp])
  qed
  have "sort_key fst p = ys"
    by (rule properties_for_sort_key [where f = fst, OF a b c])
  then show ?thesis by (simp only: ys_def)
qed

lemma json_map_iteration:
  assumes "distinct (map fst kvs)" and "map_iteration iter1" and "map_iteration iter2"
  shows "json_map q iter1 kvs = json_map q iter2 kvs"
proof -
  from assms(2) have "mset (iter1 kvs) = mset kvs" by (simp add: map_iteration_def)
  from sort_key_iteration [OF assms(1) this]
  have 1: "sort_key fst (iter1 kvs) = sort_key fst kvs" .
  from assms(3) have "mset (iter2 kvs) = mset kvs" by (simp add: map_iteration_def)
  from sort_key_iteration [OF assms(1) this]
  have 2: "sort_key fst (iter2 kvs) = sort_key fst kvs" .
  show ?thesis unfolding json_map_def 1 2 ..
qed

lemma fetchMetadata_details:
  "SourceDetails (Dataset (fst (fetchMetadata db dbName tns))) = Some kvs
   \<Longrightarrow> distinct (map fst kvs)"
proof (cases "snd (fetchMetadata db dbName tns)")
  case None
  then have "fetchMetadata db dbName tns = (fst (fetchMetadata db dbName tns), None)"
    by (metis prod.collapse)
  from fetchMetadata_success [OF this]
  have "SourceDetails (Dataset (fst (fetchMetadata db dbName tns)))
               = Some [(''database_type'', DString ''PostgreSQL''),
                       (''tables_or_collections'', DStrings tns)]" by blast
  moreover assume "SourceDetails (Dataset (fst (fetchMetadata db dbName tns))) = Some kvs"
  ultimately show ?thesis by auto
next
  case (Some e)
  with fetchMetadata_err [of db dbName tns]
  have "Dataset (fst (fetchMetadata db dbName tns)) = zero_dataset" by simp
  moreover assume "SourceDetails (Dataset (fst (fetchMetadata db dbName tns))) = Some kvs"
  ultimately show ?thesis by (simp add: zero_dataset_def)
qed

text \<open>
  C8: two runs of discovery with the same selection that get the same answers to the
  catalog queries that discovery issues (the table list and the three queries of every
  table of the selection) return the same error or none, and \<open>saveMetadata\<close> hands the
  same bytes to the file, whatever order the runtime chooses in each run for visiting the
  entries of the \<^verbatim>\<open>SourceDetails\<close> map: the encoder sorts the entries by key, and the
  keys are distinct.
\<close>

theorem C8_discovery_deterministic:
  assumes "tables_query c1 = tables_query c2"
    and "\<forall>t \<in> set (elems tableNames). columns_query c1 t = columns_query c2 t
           \<and> pk_query c1 t = pk_query c2 t \<and> fk_query c1 t = fk_query c2 t"
    and "map_iteration iter1" and "map_iteration iter2"
  shows "snd (fetchMetadata c1 dbName tableNames) = snd (fetchMetadata c2 dbName tableNames)
         \<and> saveMetadata q iter1 (fst (fetchMetadata c1 dbName tableNames))
           = saveMetadata q iter2 (fst (fetchMetadata c2 dbName tableNames))"
proof -
  have eq: "fetchMetadata c1 dbName tableNames = fetchMetadata c2 dbName tableNames"
    by (rule fetchMetadata_cong [OF assms(1,2)])
  define s where "s = fst (fetchMetadata c2 dbName tableNames)"
  have "json_dataset q iter1 (Dataset s) = json_dataset q iter2 (Dataset s)"
  proof (cases "SourceDetails (Dataset s)")
    case None
    then show ?thesis by (simp add: json_dataset_def)
  next
    case (Some kvs)
    with fetchMetadata_details [of c2 dbName tableNames kvs]
    have "distinct (map fst kvs)" by (simp add: s_def)
    from json_map_iteration [OF this assms(3,4)] Some show ?thesis
      by (simp add: json_dataset_def)
  qed
  then have "saveMetadata q iter1 s = saveMetadata q iter2 s"
    by (simp add: saveMetadata_def json_Marshal_def)
  with eq show ?thesis by (simp add: s_def)
qed

lemma catalog_alt_agrees:
  "tables_query catalog_sessions = tables_query catalog_sessions_alt
   \<and> (\<forall>t \<in> set (elems (Some [''users'', ''sessions''])).
         columns_query catalog_sessions t = columns_query catalog_sessions_alt t
         \<and> pk_query catalog_sessions t = pk_query catalog_sessions_alt t
         \<and> fk_query catalog_sessions t = fk_query catalog_sessions_alt t)"
  by (simp add: catalog_sessions_alt_def elems_def)

lemma map_iteration_examples: "map_iteration (\<lambda>kvs. kvs)" "map_iteration rev"
  by (simp_all add: map_iteration_def)

theorem C8_witness:
  "pk_query catalog_sessions ''orgs'' \<noteq> pk_query catalog_sessions_alt ''orgs''
   \<and> rev [(''database_type'', DString ''PostgreSQL''),
          (''tables_or_collections'', DStrings (Some [''users'', ''sessions'']))]
       \<noteq> [(''database_type'', DString ''PostgreSQL''),
          (''tables_or_collections'', DStrings (Some [''users'', ''sessions'']))]
   \<and> snd (fetchMetadata catalog_sessions ''db'' (Some [''users'', ''sessions'']))
     = snd (fetchMetadata catalog_sessions_alt ''db'' (Some [''users'', ''sessions'']))
   \<and> saveMetadata quote_plain (\<lambda>kvs. kvs)
       (fst (fetchMetadata catalog_sessions ''db'' (Some [''users'', ''sessions''])))
     = saveMetadata quote_plain rev
         (fst (fetchMetadata catalog_sessions_alt ''db'' (Some [''users'', ''sessions''])))"
proof -
  have "pk_query catalog_sessions ''orgs'' \<noteq> pk_query catalog_sessions_alt ''orgs''"
    by (simp add: catalog_sessions_alt_def catalog_sessions_def)
  moreover have
    "rev [(''database_type'', DString ''PostgreSQL''),
          (''tables_or_collections'', DStrings (Some [''users'', ''sessions'']))]
       \<noteq> [(''database_type'', DString ''PostgreSQL''),
          (''tables_or_collections'', DStrings (Some [''users'', ''sessions'']))]"
    by simp
  moreover note C8_discovery_deterministic
    [OF conjunct1 [OF catalog_alt_agrees] conjunct2 [OF catalog_alt_agrees]
        map_iteration_examples, of "''db''" quote_plain]
  ultimately show ?thesis by blast
qed

section \<open>The row readers\<close>

lemma build_row_raw:
  "build_row metaMap cols vals rowMap = rowMap ++ map_of (rev (zip cols vals))"
proof (induction metaMap cols vals rowMap rule: build_row.induct)
  case (1 metaMap colName cols v vals rowMap)
  have "rowMap(colName \<mapsto> v) ++ map_of (rev (zip cols vals))
        = rowMap ++ map_of (rev (zip (colName # cols) (v # vals)))"
    by (simp add: map_add_upd_left fun_eq_iff map_add_def split: option.splits)
  with 1 show ?case by (simp add: convertValue_def split: option.splits)
qed simp_all

text \<open>
  C10: the conversion helper returns its raw argument whatever the declared type, so the
  row that a reader builds from the scanned values holds, under every column name, the
  raw value of that column (the last one, should a name occur twice).
\<close>

theorem C10_convertValue_identity:
  "convertValue rawValue dataType = rawValue
   \<and> build_row metaMap cols vals Map.empty = map_of (rev (zip cols vals))"
  by (simp add: convertValue_def build_row_raw)

lemma Next_failed: "err ri = Some e \<Longrightarrow> Next ri db = (None, ri, db)"
  by (simp add: Next_def)

text \<open>
  C7: once an error is recorded in the iterator, any number of further calls of \<open>Next\<close>
  return false, leave the iterator as it is, so that \<open>Error\<close> still gives the recorded
  error, and issue no query.
\<close>

theorem C7_failed_iterator_stays_failed:
  assumes "err ri = Some e"
  shows "Next_calls n ri db = (replicate n None, ri, db)
         \<and> Error (fst (snd (Next_calls n ri db))) = Some e
         \<and> issued (snd (snd (Next_calls n ri db))) = issued db"
proof -
  have "Next_calls n ri db = (replicate n None, ri, db)"
    by (induction n) (simp_all add: Next_failed [OF assms])
  with assms show ?thesis by (simp add: Error_def)
qed

lemma Next_failing_db:
  "Next (NewRowIterator ids_table) failing_db =
     (None,
      (NewRowIterator ids_table)\<lparr>err := Some ''connection refused'', done_flag := True\<rparr>,
      failing_db\<lparr>issued := [PageQuery ''id'' ''ids'' BATCHSIZE 0]\<rparr>)"
  by (simp add: Next_def NewRowIterator_def NewRowIterator_sized_def failing_db_def
      db_Query_def ids_table_def plain_field_def)

theorem C7_witness:
  "err (fst (snd (Next (NewRowIterator ids_table) failing_db))) = Some ''connection refused''
   \<and> Next_calls 3 (fst (snd (Next (NewRowIterator ids_table) failing_db)))
        (snd (snd (Next (NewRowIterator ids_table) failing_db)))
      = ([None, None, None],
         (NewRowIterator ids_table)\<lparr>err := Some ''connection refused'', done_flag := True\<rparr>,
         failing_db\<lparr>issued := [PageQuery ''id'' ''ids'' BATCHSIZE 0]\<rparr>)"
proof -
  have e: "err (fst (snd (Next (NewRowIterator ids_table) failing_db)))
           = Some ''connection refused''"
    by (simp add: Next_failing_db)
  from C7_failed_iterator_stays_failed [OF e, of 3] e show ?thesis
    by (simp add: Next_failing_db numeral_3_eq_3)
qed

lemma short_page_rows:
  "FetchTableData 2 short_page_db ids_table =
     Some (Inr \<lparr>DataTableName = ''ids'', Columns = [plain_field ''id'' DataTypeInt False],
                Rows = [[''id'' \<mapsto> GInt64 1]]\<rparr>,
           short_page_db\<lparr>issued := [PageQuery ''id'' ''ids'' 10000 0,
                                     PageQuery ''id'' ''ids'' 10000 10000]\<rparr>)"
  by (simp add: FetchTableData_def numeral_2_eq_2 short_page_db_def ids_table_def
      db_Query_def rows_Scan_def BATCHSIZE_db_def plain_field_def convertValue_def)


lemma page_offsets_end: "0 < P \<Longrightarrow> page_offsets P N N = [N]"
  by (simp add: page_offsets_def)

lemma page_offsets_step:
  assumes "0 < P" and "off < N"
  shows "page_offsets P N off = off # page_offsets P N (off + min P (N - off))"
proof (cases "P \<le> N - off")
  case True
  then have m: "min P (N - off) = P" by simp
  have "(N - off + P - 1) div P = Suc ((N - (off + P) + P - 1) div P)"
  proof -
    define x where "x = N - (off + P) + P - 1"
    have "N - off + P - 1 = x + P" unfolding x_def using True assms by linarith
    moreover have "(x + P) div P = Suc (x div P)"
      using assms(1) div_add_self2 [of P x] by simp
    ultimately show ?thesis unfolding x_def by simp
  qed
  then show ?thesis
    unfolding page_offsets_def m
    by (simp add: upt_conv_Cons map_Suc_upt [symmetric] del: upt_Suc add: add.assoc add.commute)
next
  case False
  then have m: "min P (N - off) = N - off" by simp
  have a: "(N - off + P - 1) div P = 1"
  proof -
    have "P \<le> N - off + P - 1" "N - off + P - 1 < 2 * P" using False assms by simp_all
    then show ?thesis using assms(1)
      by (metis One_nat_def Suc_1 div_nat_eqI mult.commute mult_1)
  qed
  have b: "off + (N - off) = N" using assms by simp
  show ?thesis unfolding page_offsets_def m b a using assms(1) by simp
qed


lemma scan_batch_ok:
  "\<forall>vals \<in> set rows. length vals = length cols \<Longrightarrow>
   scan_batch m cols (map Inr rows) batch n
     = (None, batch @ map (row_of m cols) rows, n + length rows)"
  by (induction rows arbitrary: batch n) (simp_all add: rows_Scan_def row_of_def)

lemma Next_emit:
  assumes "\<not> done_flag ri" "err ri = None" "currentRows ri \<noteq> None"
    "batchIndex ri < length (currentBatch ri)"
  shows "Next ri db =
           (Some (currentBatch ri ! batchIndex ri), ri\<lparr>batchIndex := batchIndex ri + 1\<rparr>, db)"
  using assms by (auto simp add: Next_def emit_row_def)

lemma Next_fetch_empty:
  assumes "\<not> done_flag ri" "err ri = None"
    "currentRows ri = None \<or> length (currentBatch ri) \<le> batchIndex ri"
    "query ri = QueryTemplate cs tn P"
    "answer db (PageQuery cs tn P (offset ri)) = Inr (SqlRows (Inr cols) [])"
  shows "Next ri db =
           (None,
            ri\<lparr>currentRows := Some (SqlRows (Inr cols) []), currentBatch := [],
               batchIndex := 0, done_flag := True\<rparr>,
            db\<lparr>issued := issued db @ [PageQuery cs tn P (offset ri)]\<rparr>)"
  using assms by (auto simp add: Next_def db_Query_def)

lemma Next_fetch_rows:
  assumes "\<not> done_flag ri" "err ri = None"
    "currentRows ri = None \<or> length (currentBatch ri) \<le> batchIndex ri"
    "query ri = QueryTemplate cs tn P"
    "answer db (PageQuery cs tn P (offset ri)) = Inr (SqlRows (Inr cols) (map Inr page))"
    "\<forall>vals \<in> set page. length vals = length cols" "page \<noteq> []"
  shows "Next ri db =
           (Some (row_of (metadata ri) cols (hd page)),
            ri\<lparr>currentRows := Some (SqlRows (Inr cols) (map Inr page)),
               currentBatch := map (row_of (metadata ri) cols) page,
               batchIndex := 1, offset := offset ri + length page\<rparr>,
            db\<lparr>issued := issued db @ [PageQuery cs tn P (offset ri)]\<rparr>)"
proof -
  from assms(7) have hd: "map (row_of (metadata ri) cols) page ! 0
                          = row_of (metadata ri) cols (hd page)"
    by (cases page) simp_all
  from assms show ?thesis
    by (auto simp add: Next_def db_Query_def scan_batch_ok emit_row_def hd)
qed

lemma table_db_answer:
  "answer db = answer (table_db cols tbl) \<Longrightarrow>
   answer db (PageQuery cs tn P off)
     = Inr (SqlRows (Inr cols) (map Inr (take P (drop off tbl))))"
  by (simp add: table_db_def)

lemma iterate_table:
  assumes P: "0 < P" and wf: "\<forall>vals \<in> set tbl. length vals = length cols"
  shows "answer db = answer (table_db cols tbl) \<Longrightarrow> query ri = QueryTemplate cs tn P
    \<Longrightarrow> metadata ri = m
    \<Longrightarrow> \<not> done_flag ri \<Longrightarrow> err ri = None
    \<Longrightarrow> batchIndex ri \<le> length (currentBatch ri)
    \<Longrightarrow> currentRows ri \<noteq> None \<or> currentBatch ri = []
    \<Longrightarrow> offset ri \<le> length tbl
    \<Longrightarrow> length (currentBatch ri) - batchIndex ri + (length tbl - offset ri) < fuel
    \<Longrightarrow> \<exists>ri' db'. iterate fuel ri db
            = Some (drop (batchIndex ri) (currentBatch ri)
                      @ map (row_of m cols) (drop (offset ri) tbl), ri', db')
          \<and> offset ri' = length tbl \<and> done_flag ri' \<and> err ri' = None
          \<and> answer db' = answer db
          \<and> issued db' = issued db
               @ map (PageQuery cs tn P) (page_offsets P (length tbl) (offset ri))"
proof (induction fuel arbitrary: ri db)
  case 0
  then show ?case by simp
next
  case (Suc n)
  note ans = Suc.prems(1) and q = Suc.prems(2) and md = Suc.prems(3)
    and nd = Suc.prems(4) and ne = Suc.prems(5) and i1 = Suc.prems(6)
    and i2 = Suc.prems(7) and off = Suc.prems(8) and fl = Suc.prems(9)
  show ?case
  proof (cases "batchIndex ri < length (currentBatch ri)")
    case True
    with i2 have cr: "currentRows ri \<noteq> None" by auto
    define ri1 where "ri1 = ri\<lparr>batchIndex := batchIndex ri + 1\<rparr>"
    have nx: "Next ri db = (Some (currentBatch ri ! batchIndex ri), ri1, db)"
      unfolding ri1_def by (rule Next_emit [OF nd ne cr True])
    have "\<exists>ri' db'. iterate n ri1 db
            = Some (drop (batchIndex ri1) (currentBatch ri1)
                      @ map (row_of m cols) (drop (offset ri1) tbl), ri', db')
          \<and> offset ri' = length tbl \<and> done_flag ri' \<and> err ri' = None
          \<and> answer db' = answer db
          \<and> issued db' = issued db
               @ map (PageQuery cs tn P) (page_offsets P (length tbl) (offset ri1))"
      using ans q md nd ne True cr off fl
      by (intro Suc.IH) (simp_all add: ri1_def)
    then obtain ri' db' where
      it: "iterate n ri1 db
            = Some (drop (Suc (batchIndex ri)) (currentBatch ri)
                      @ map (row_of m cols) (drop (offset ri) tbl), ri', db')"
      and rest: "offset ri' = length tbl" "done_flag ri'" "err ri' = None"
        "answer db' = answer db"
        "issued db' = issued db
               @ map (PageQuery cs tn P) (page_offsets P (length tbl) (offset ri))"
      by (auto simp: ri1_def)
    have "iterate (Suc n) ri db
            = Some (drop (batchIndex ri) (currentBatch ri)
                      @ map (row_of m cols) (drop (offset ri) tbl), ri', db')"
      using nx it True by (simp add: Cons_nth_drop_Suc)
    with rest show ?thesis by blast
  next
    case False
    with i1 have bi: "batchIndex ri = length (currentBatch ri)" by simp
    then have need: "currentRows ri = None \<or> length (currentBatch ri) \<le> batchIndex ri"
      by simp
    define page where "page = take P (drop (offset ri) tbl)"
    have a: "answer db (PageQuery cs tn P (offset ri))
               = Inr (SqlRows (Inr cols) (map Inr page))"
      unfolding page_def by (rule table_db_answer [OF ans])
    have pwf: "\<forall>vals \<in> set page. length vals = length cols"
      using wf unfolding page_def by (meson in_set_dropD in_set_takeD)
    show ?thesis
    proof (cases "page = []")
      case True
      with P have dr: "drop (offset ri) tbl = []" unfolding page_def by (simp add: take_eq_Nil)
      with off have oN: "offset ri = length tbl" by simp
      from a True have a': "answer db (PageQuery cs tn P (offset ri))
               = Inr (SqlRows (Inr cols) [])" by simp
      note nx = Next_fetch_empty [OF nd ne need q a']
      have "iterate (Suc n) ri db
              = Some (drop (batchIndex ri) (currentBatch ri)
                        @ map (row_of m cols) (drop (offset ri) tbl),
                      ri\<lparr>currentRows := Some (SqlRows (Inr cols) []), currentBatch := [],
                         batchIndex := 0, done_flag := True\<rparr>,
                      db\<lparr>issued := issued db @ [PageQuery cs tn P (offset ri)]\<rparr>)"
        using nx bi dr by simp
      moreover have "page_offsets P (length tbl) (offset ri) = [offset ri]"
        using page_offsets_end [OF P, of "length tbl"] oN by simp
      ultimately show ?thesis using oN ne by (intro exI conjI) (assumption | simp)+
    next
      case ne_page: False
      have lp: "length page = min P (length tbl - offset ri)"
        unfolding page_def by simp
      from ne_page have oLt: "offset ri < length tbl"
        unfolding page_def by (cases "offset ri < length tbl") simp_all
      define ri1 where
        "ri1 = ri\<lparr>currentRows := Some (SqlRows (Inr cols) (map Inr page)),
                  currentBatch := map (row_of (metadata ri) cols) page,
                  batchIndex := 1, offset := offset ri + length page\<rparr>"
      define db1 where "db1 = db\<lparr>issued := issued db @ [PageQuery cs tn P (offset ri)]\<rparr>"
      have nx: "Next ri db = (Some (row_of (metadata ri) cols (hd page)), ri1, db1)"
        unfolding ri1_def db1_def by (rule Next_fetch_rows [OF nd ne need q a pwf ne_page])
      have lpos: "0 < length page" using ne_page by simp
      have "\<exists>ri' db'. iterate n ri1 db1
            = Some (drop (batchIndex ri1) (currentBatch ri1)
                      @ map (row_of m cols) (drop (offset ri1) tbl), ri', db')
          \<and> offset ri' = length tbl \<and> done_flag ri' \<and> err ri' = None
          \<and> answer db' = answer db1
          \<and> issued db' = issued db1
               @ map (PageQuery cs tn P) (page_offsets P (length tbl) (offset ri1))"
      proof (intro Suc.IH)
        show "answer db1 = answer (table_db cols tbl)" using ans by (simp add: db1_def)
        show "query ri1 = QueryTemplate cs tn P" using q by (simp add: ri1_def)
        show "metadata ri1 = m" using md by (simp add: ri1_def)
        show "\<not> done_flag ri1" using nd by (simp add: ri1_def)
        show "err ri1 = None" using ne by (simp add: ri1_def)
        show "batchIndex ri1 \<le> length (currentBatch ri1)"
          using ne_page by (cases page) (simp_all add: ri1_def)
        show "currentRows ri1 \<noteq> None \<or> currentBatch ri1 = []" by (simp add: ri1_def)
        show "offset ri1 \<le> length tbl" using lp oLt by (simp add: ri1_def)
        show "length (currentBatch ri1) - batchIndex ri1 + (length tbl - offset ri1) < n"
          using fl bi lp oLt ne_page by (cases page) (simp_all add: ri1_def)
      qed
      then obtain ri' db' where
        it: "iterate n ri1 db1
              = Some (drop 1 (map (row_of m cols) page)
                        @ map (row_of m cols) (drop (offset ri + length page) tbl), ri', db')"
        and rest: "offset ri' = length tbl" "done_flag ri'" "err ri' = None"
          "answer db' = answer db"
        and iss: "issued db' = issued db @ [PageQuery cs tn P (offset ri)]
               @ map (PageQuery cs tn P)
                   (page_offsets P (length tbl) (offset ri + length page))"
        using md by (auto simp: ri1_def db1_def)
      have rows: "row_of m cols (hd page) #
                    (drop 1 (map (row_of m cols) page)
                       @ map (row_of m cols) (drop (offset ri + length page) tbl))
                  = map (row_of m cols) (drop (offset ri) tbl)"
      proof -
        have "drop (offset ri + length page) tbl = drop P (drop (offset ri) tbl)"
          unfolding lp by (cases "P \<le> length tbl - offset ri") (simp_all add: add.commute)
        moreover have "row_of m cols (hd page) # drop 1 (map (row_of m cols) page)
                       = map (row_of m cols) page"
          using ne_page by (cases page) simp_all
        ultimately have "row_of m cols (hd page) #
                    (drop 1 (map (row_of m cols) page)
                       @ map (row_of m cols) (drop (offset ri + length page) tbl))
                  = map (row_of m cols) (take P (drop (offset ri) tbl)
                       @ drop P (drop (offset ri) tbl))"
          unfolding page_def [symmetric] by (simp del: append_take_drop_id drop_drop)
        then show ?thesis by (simp del: drop_drop)
      qed
      have "iterate (Suc n) ri db
              = Some (drop (batchIndex ri) (currentBatch ri)
                        @ map (row_of m cols) (drop (offset ri) tbl), ri', db')"
        using nx it bi rows md by simp
      moreover have "issued db' = issued db
               @ map (PageQuery cs tn P) (page_offsets P (length tbl) (offset ri))"
        using iss page_offsets_step [OF P oLt] lp by simp
      ultimately show ?thesis using rest by blast
    qed
  qed
qed

lemma iterate_length:
  "iterate n ri db = Some (rows, ri', db') \<Longrightarrow> length rows < n"
proof (induction n arbitrary: ri db rows)
  case 0 then show ?case by simp
next
  case (Suc n)
  obtain r ri1 db1 where nx: "Next ri db = (r, ri1, db1)" by (cases "Next ri db")
  show ?case
  proof (cases r)
    case None with Suc.prems nx show ?thesis by simp
  next
    case (Some row)
    with Suc.prems nx obtain rows1 where "iterate n ri1 db1 = Some (rows1, ri', db')"
      and "rows = row # rows1"
      by (auto split: option.splits)
    with Suc.IH show ?thesis by fastforce
  qed
qed

lemma iterate_Suc:
  "iterate n ri db = Some res \<Longrightarrow> iterate (Suc n) ri db = Some res"
proof (induction n arbitrary: ri db res)
  case 0 then show ?case by simp
next
  case (Suc n)
  obtain r ri1 db1 where nx: "Next ri db = (r, ri1, db1)" by (cases "Next ri db")
  show ?case
  proof (cases r)
    case None with Suc.prems nx show ?thesis by simp
  next
    case (Some row)
    with Suc.prems nx obtain res1 where i: "iterate n ri1 db1 = Some res1"
      by (auto split: option.splits)
    from Suc.IH [OF i] have "iterate (Suc n) ri1 db1 = Some res1" .
    with Suc.prems nx Some i show ?thesis
      by (simp del: iterate.simps
               add: iterate.simps(2) [of "Suc n" ri db] iterate.simps(2) [of n ri db])
  qed
qed

lemma iterate_mono:
  "iterate n ri db = Some res \<Longrightarrow> n \<le> k \<Longrightarrow> iterate k ri db = Some res"
  by (induction k) (auto simp: le_Suc_eq iterate_Suc simp del: iterate.simps)

text \<open>
  C4: over an unchanging table of \<open>N\<close> rows with page size \<open>P > 0\<close>, the loop over
  \<open>Next\<close> yields the \<open>N\<close> rows of the table in order; the rows come from
  \<open>\<lceil>N / P\<rceil>\<close> page queries at the offsets \<open>0, P, 2 P, \<dots>\<close>, followed by one
  more query at offset \<open>N\<close>, which returns no rows; the offset is \<open>N\<close> at the end; and
  \<open>Next\<close> does not return false before that last query (with fuel for \<open>N\<close> calls or
  fewer the loop has not ended).
\<close>

theorem C4_paged_iteration:
  assumes "0 < P" and "\<forall>vals \<in> set tbl. length vals = length cols"
    and "length tbl < fuel"
  shows "\<exists>ri' db'.
           iterate fuel (NewRowIterator_sized P table) (table_db cols tbl)
             = Some (map (row_of (meta_map (Fields table) Map.empty) cols) tbl, ri', db')
           \<and> offset ri' = length tbl \<and> done_flag ri' \<and> Error ri' = None
           \<and> map q_offset (issued db')
               = map (\<lambda>j. j * P) [0..<(length tbl + P - 1) div P] @ [length tbl]
           \<and> answer db' (last (issued db')) = Inr (SqlRows (Inr cols) [])
           \<and> (\<forall>n \<le> length tbl.
                 iterate n (NewRowIterator_sized P table) (table_db cols tbl) = None)"
proof -
  define ri where "ri = NewRowIterator_sized P table"
  define db where "db = table_db cols tbl"
  define cs where "cs = strings_Join (map FieldName (Fields table)) '', ''"
  define m where "m = meta_map (Fields table) Map.empty"
  have "\<exists>ri' db'. iterate fuel ri db
            = Some (drop (batchIndex ri) (currentBatch ri)
                      @ map (row_of m cols) (drop (offset ri) tbl), ri', db')
          \<and> offset ri' = length tbl \<and> done_flag ri' \<and> err ri' = None
          \<and> answer db' = answer db
          \<and> issued db' = issued db
               @ map (PageQuery cs (TableName table) P)
                   (page_offsets P (length tbl) (offset ri))"
    using assms(3)
    by (intro iterate_table [OF assms(1,2)])
       (simp_all add: ri_def db_def cs_def m_def NewRowIterator_sized_def)
  then obtain ri' db' where
    it: "iterate fuel ri db = Some (map (row_of m cols) tbl, ri', db')"
    and r: "offset ri' = length tbl" "done_flag ri'" "err ri' = None"
    and an: "answer db' = answer (table_db cols tbl)"
    and iss: "issued db' = map (PageQuery cs (TableName table) P)
                             (page_offsets P (length tbl) 0)"
    by (auto simp: ri_def db_def NewRowIterator_sized_def table_db_def)
  have offs: "map q_offset (issued db')
               = map (\<lambda>j. j * P) [0..<(length tbl + P - 1) div P] @ [length tbl]"
    unfolding iss by (simp add: page_offsets_def comp_def)
  have "last (issued db') = PageQuery cs (TableName table) P (length tbl)"
    unfolding iss by (simp add: page_offsets_def)
  then have lst: "answer db' (last (issued db')) = Inr (SqlRows (Inr cols) [])"
    using an by (simp add: table_db_def)
  have none: "\<forall>n \<le> length tbl. iterate n ri db = None"
  proof (intro allI impI)
    fix n assume n: "n \<le> length tbl"
    show "iterate n ri db = None"
    proof (rule ccontr)
      assume "iterate n ri db \<noteq> None"
      then obtain rows ri2 db2 where i: "iterate n ri db = Some (rows, ri2, db2)"
        by (cases "iterate n ri db") auto
      from iterate_length [OF i] have l: "length rows < n" .
      from n assms(3) have "n \<le> fuel" by simp
      from iterate_mono [OF i this] it have "rows = map (row_of m cols) tbl" by simp
      with l n show False by simp
    qed
  qed
  from it r offs lst none show ?thesis
    unfolding ri_def db_def m_def Error_def by blast
qed

theorem C4_witness:
  "map_option (\<lambda>(rows, ri', db'). (map (\<lambda>row. row ''id'') rows, offset ri', done_flag ri',
                                     map q_offset (issued db')))
     (iterate 6 (NewRowIterator_sized 2 ids_table) (table_db [''id''] five_rows))
   = Some ([Some (GInt64 1), Some (GInt64 2), Some (GInt64 3), Some (GInt64 4),
            Some (GInt64 5)], 5, True, [0, 2, 4, 5])
   \<and> iterate 5 (NewRowIterator_sized 2 ids_table) (table_db [''id''] five_rows) = None"
proof -
  have h: "\<forall>vals \<in> set five_rows. length vals = length [''id'']"
    by (simp add: five_rows_def)
  have l: "length five_rows = 5" by (simp add: five_rows_def)
  from C4_paged_iteration [of 2 five_rows "[''id'']" 6 ids_table, OF _ h]
  obtain ri' db' where
    it: "iterate 6 (NewRowIterator_sized 2 ids_table) (table_db [''id''] five_rows)
           = Some (map (row_of (meta_map (Fields ids_table) Map.empty) [''id'']) five_rows,
                   ri', db')"
    and r: "offset ri' = 5" "done_flag ri'"
      "map q_offset (issued db') = map (\<lambda>j. j * 2) [0..<(5 + 2 - 1) div 2] @ [5]"
    and none: "\<forall>n \<le> 5. iterate n (NewRowIterator_sized 2 ids_table)
                          (table_db [''id''] five_rows) = None"
    unfolding l by auto
  have "map (\<lambda>j. j * 2) [0..<(5 + 2 - 1) div 2] @ [5] = [0, 2, 4, 5::nat]"
    by (simp add: numeral_3_eq_3)
  with it r none show ?thesis
    by (simp add: five_rows_def row_of_def ids_table_def plain_field_def convertValue_def)
qed

lemma Next_advances_by_rows_returned:
  assumes "\<not> done_flag ri" "err ri = None"
    "currentRows ri = None \<or> length (currentBatch ri) \<le> batchIndex ri"
    "query ri = QueryTemplate cs tn P"
    "answer db (PageQuery cs tn P (offset ri)) = Inr (SqlRows (Inr cols) (map Inr page))"
    "\<forall>vals \<in> set page. length vals = length cols" "page \<noteq> []"
  shows "offset (fst (snd (Next ri db))) = offset ri + length page"
  by (simp add: Next_fetch_rows [OF assms])

lemma iterate_short_page:
  "map_option (\<lambda>(rows, ri', db'). (map (\<lambda>row. row ''id'') rows, map q_offset (issued db')))
     (iterate (Suc (Suc (Suc (Suc 0)))) (NewRowIterator ids_table) short_page_db)
   = Some ([Some (GInt64 1), Some (GInt64 2), Some (GInt64 3)], [0, 1, 3])"
  by (simp add: Next_def NewRowIterator_def NewRowIterator_sized_def
      short_page_db_def ids_table_def db_Query_def rows_Scan_def BATCHSIZE_def
      plain_field_def convertValue_def emit_row_def)

text \<open>
  C1, on the reader that loads a whole table: its first page query returns one row, and
  its second query is at offset 10000, not at offset 1, so the two rows that the
  database holds from offset 1 on are never read.
\<close>

theorem C1_FetchTableData_fixed_step:
  "FetchTableData 2 short_page_db ids_table =
     Some (Inr \<lparr>DataTableName = ''ids'', Columns = [plain_field ''id'' DataTypeInt False],
                Rows = [[''id'' \<mapsto> GInt64 1]]\<rparr>,
           short_page_db\<lparr>issued := [PageQuery ''id'' ''ids'' 10000 0,
                                     PageQuery ''id'' ''ids'' 10000 10000]\<rparr>)
   \<and> answer short_page_db (PageQuery ''id'' ''ids'' 10000 1)
       = Inr (SqlRows (Inr [''id'']) [Inr [GInt64 2], Inr [GInt64 3]])"
  by (simp add: short_page_rows) (simp add: short_page_db_def)

section \<open>The entry for a null value\<close>

lemma as_int64s_Inr: "as_int64s a = Inr xs \<Longrightarrow> a = Some (Int64s xs)"
  by (erule as_int64s.elims) simp_all
lemma as_float64s_Inr: "as_float64s a = Inr xs \<Longrightarrow> a = Some (Float64s xs)"
  by (erule as_float64s.elims) simp_all
lemma as_strings_Inr: "as_strings a = Inr xs \<Longrightarrow> a = Some (Strings xs)"
  by (erule as_strings.elims) simp_all
lemma as_bools_Inr: "as_bools a = Inr xs \<Longrightarrow> a = Some (Bools xs)"
  by (erule as_bools.elims) simp_all
lemma as_ifaces_Inr: "as_ifaces a = Inr xs \<Longrightarrow> a = Some (Ifaces xs)"
  by (erule as_ifaces.elims) simp_all

lemmas as_Inr = as_int64s_Inr as_float64s_Inr as_strings_Inr as_bools_Inr as_ifaces_Inr

lemma append_cell_nil:
  assumes "row_get row (FieldName col) = GNil" and "append_cell lib cd row col = Inr cd'"
  shows "\<exists>arr arr'. cd (FieldName col) = Some arr \<and> cd' (FieldName col) = Some arr'
           \<and> entries arr' = entries arr @ [null_entry_stream (DataType col)]"
  using assms unfolding append_cell_def null_entry_stream_def Let_def
  by (auto split: if_splits sum.splits dest!: as_Inr simp: DataType_defs)

lemma put_Inr:
  "put r x arr = Inr arr' \<Longrightarrow>
   length arr' = length arr
   \<and> (case x of None \<Rightarrow> arr' = arr | Some y \<Rightarrow> r < length arr \<and> arr' = arr[r := y])"
  by (auto simp: put_def split: option.splits if_splits)

lemma store_cell_nil:
  assumes "row_get row (FieldName col) = GNil" and "store_cell lib arrays r row col = Inr arrays'"
  shows "\<exists>arr arr'. arrays (FieldName col) = Some arr
           \<and> arrays' (FieldName col) = Some arr'
           \<and> r < length (entries arr)
           \<and> entries arr' = (entries arr)[r := null_entry_npz (DataType col)]"
  using assms unfolding store_cell_def null_entry_npz_def Let_def
  by (auto split: if_splits sum.splits dest!: as_Inr put_Inr
           simp: DataType_defs map_update map_sum_def)

text \<open>
  C2, as amended: for a null value, the streaming exporter appends \<open>0\<close> to an Int column,
  \<open>0.0\<close> to a Float column, \<open>false\<close> to a Bool column and the empty string to a
  String, Date, Timestamp, UUID or Null column; the exporter of a table held in memory
  stores \<open>0\<close>, \<open>0.0\<close>, \<open>false\<close>, the empty string for String and Date, and the text
  \<^verbatim>\<open>null\<close> for UUID, Timestamp and Null. In each exporter the entry depends on the
  canonical type of the column only.
\<close>

theorem C2_null_sentinels:
  "(row_get row (FieldName col) = GNil \<and> append_cell lib cd row col = Inr cd'
      \<longrightarrow> (\<exists>arr arr'. cd (FieldName col) = Some arr \<and> cd' (FieldName col) = Some arr'
             \<and> entries arr' = entries arr @ [null_entry_stream (DataType col)]))
   \<and> (row_get row (FieldName col) = GNil \<and> store_cell lib arrays r row col = Inr arrays'
      \<longrightarrow> (\<exists>arr arr'. arrays (FieldName col) = Some arr \<and> arrays' (FieldName col) = Some arr'
             \<and> r < length (entries arr)
             \<and> entries arr' = (entries arr)[r := null_entry_npz (DataType col)]))
   \<and> map null_entry_stream canonical_types
       = [CString [], CInt64 0, CFloat64 0, CBool False,
          CString [], CString [], CString [], CString []]
   \<and> map null_entry_npz canonical_types
       = [CString [], CInt64 0, CFloat64 0, CBool False,
          CString ''null'', CString [], CString ''null'', CString ''null'']"
proof -
  have "map null_entry_stream canonical_types
       = [CString [], CInt64 0, CFloat64 0, CBool False,
          CString [], CString [], CString [], CString []]"
    by (simp add: canonical_types_def null_entry_stream_def DataType_defs)
  moreover have "map null_entry_npz canonical_types
       = [CString [], CInt64 0, CFloat64 0, CBool False,
          CString ''null'', CString [], CString ''null'', CString ''null'']"
    by (simp add: canonical_types_def null_entry_npz_def DataType_defs)
  ultimately show ?thesis using append_cell_nil store_cell_nil by blast
qed

theorem C2_counterexample:
  "store_cell plain_lib [''u'' \<mapsto> Strings [[]]] 0 Map.empty (plain_field ''u'' DataTypeUUID True)
     = Inr [''u'' \<mapsto> Strings [''null'']]"
  by (simp add: store_cell_def plain_field_def row_get_def DataType_defs put_def)

lemma append_uuid_nil:
  "append_cell plain_lib [''u'' \<mapsto> Strings []] Map.empty (plain_field ''u'' DataTypeUUID True)
     = Inr [''u'' \<mapsto> Strings [[]]]"
  by (simp add: append_cell_def plain_field_def row_get_def DataType_defs)

theorem C2_witness:
  "row_get Map.empty (FieldName (plain_field ''u'' DataTypeUUID True)) = GNil
   \<and> append_cell plain_lib [''u'' \<mapsto> Strings []] Map.empty (plain_field ''u'' DataTypeUUID True)
       = Inr [''u'' \<mapsto> Strings [[]]]
   \<and> store_cell plain_lib [''u'' \<mapsto> Strings [[]]] 0 Map.empty
         (plain_field ''u'' DataTypeUUID True)
       = Inr [''u'' \<mapsto> Strings [''null'']]
   \<and> entries (Strings [[]]) = entries (Strings []) @ [null_entry_stream DataTypeUUID]
   \<and> entries (Strings [''null''])
       = (entries (Strings [[]]))[0 := null_entry_npz DataTypeUUID]"
proof -
  define col where "col = plain_field ''u'' DataTypeUUID True"
  have fn: "FieldName col = ''u''" and dt: "DataType col = DataTypeUUID"
    by (simp_all add: col_def plain_field_def)
  have n: "row_get Map.empty (FieldName col) = GNil"
    by (simp add: row_get_def)
  have a: "append_cell plain_lib [''u'' \<mapsto> Strings []] Map.empty col
             = Inr [''u'' \<mapsto> Strings [[]]]"
    unfolding col_def by (rule append_uuid_nil)
  have s: "store_cell plain_lib [''u'' \<mapsto> Strings [[]]] 0 Map.empty col
             = Inr [''u'' \<mapsto> Strings [''null'']]"
    unfolding col_def
    by (simp add: store_cell_def plain_field_def row_get_def DataType_defs put_def)
  note th = C2_null_sentinels
    [of Map.empty col plain_lib "[''u'' \<mapsto> Strings []]"
        "[''u'' \<mapsto> Strings [[]]]" "[''u'' \<mapsto> Strings [[]]]" 0
        "[''u'' \<mapsto> Strings [''null'']]"]
  from th n a have "\<exists>arr arr'. [''u'' \<mapsto> Strings []] (FieldName col) = Some arr
      \<and> [''u'' \<mapsto> Strings [[]]] (FieldName col) = Some arr'
      \<and> entries arr' = entries arr @ [null_entry_stream (DataType col)]"
    by blast
  then have e1: "entries (Strings [[]]) = entries (Strings []) @ [null_entry_stream DataTypeUUID]"
    unfolding fn dt by simp
  from th n s have "\<exists>arr arr'. [''u'' \<mapsto> Strings [[]]] (FieldName col) = Some arr
      \<and> [''u'' \<mapsto> Strings [''null'']] (FieldName col) = Some arr'
      \<and> 0 < length (entries arr)
      \<and> entries arr' = (entries arr)[0 := null_entry_npz (DataType col)]"
    by blast
  then have e2: "entries (Strings [''null''])
       = (entries (Strings [[]]))[0 := null_entry_npz DataTypeUUID]"
    unfolding fn dt by simp
  from n a s e1 e2 show ?thesis unfolding col_def by blast
qed

end
